theory Spec2Isabelle
  imports Complex_Main "HOL-Library.Multiset" "HOL-Library.AList"
begin

section \<open>Values of the Ribasim Python model layer\<close>

text \<open>
  The development embeds \<^verbatim>\<open>python/ribasim/ribasim/model.py\<close>: the class
  \<^verbatim>\<open>Model\<close> with its queries (\<^verbatim>\<open>_nodes\<close>, \<^verbatim>\<open>node_table\<close>), its
  persistence (\<^verbatim>\<open>write\<close>, \<^verbatim>\<open>_save\<close>, \<^verbatim>\<open>_write_toml\<close>, \<^verbatim>\<open>_load\<close>,
  \<^verbatim>\<open>read\<close>) and its unimplemented checks. Exceptions are values of \<open>error\<close>; an
  operation that touches the file system, the context variable or a dataframe takes
  the \<open>world\<close> and returns it, also when it raises. The parent links that
  \<^verbatim>\<open>set_node_parent\<close> records, \<^verbatim>\<open>__repr__\<close> and \<^verbatim>\<open>plot\<close> play no part in the
  properties below and are not embedded. Paths are taken as \<^verbatim>\<open>pathlib\<close> has parsed
  them; symbolic links and \<^verbatim>\<open>..\<close> components are not resolved by the file system.
\<close>

datatype error =
    ValueError
  | NotImplementedError
  | FileNotFoundError
  | FileExistsError
  | IsADirectoryError
  | NotADirectoryError
  | ValidationError
  | UnicodeDecodeError
  | TypeError

datatype datetime = Datetime int int int int int int

text \<open>
  A \<^verbatim>\<open>pathlib.Path\<close> after parsing: whether it is anchored at the root, and its
  components (\<^verbatim>\<open>Path(".")\<close> has none).
\<close>

datatype path = Path (is_absolute: bool) (parts: "string list")

text \<open>What \<^verbatim>\<open>model_dump\<close> produces and \<^verbatim>\<open>tomli_w\<close> writes; a dict keeps its insertion order.\<close>

datatype toml_value =
    TStr string
  | TInt int
  | TFloat rat
  | TBool bool
  | TDatetime datetime
  | TTable "(string \<times> toml_value) list"

type_synonym toml_dict = "(string \<times> toml_value) list"

record node_row =
  node_id :: int
  node_type :: string
  node_name :: string

record edge_row =
  edge_id :: int
  from_node_id :: int
  to_node_id :: int
  edge_type :: string

text \<open>
  A node dataframe is an object: \<^verbatim>\<open>NodeTable.df\<close> holds a reference to it (or
  \<^verbatim>\<open>None\<close>), because \<^verbatim>\<open>node_table\<close> sorts a dataframe in place. No operation of
  the module mutates an edge dataframe, which is held by value.
\<close>

type_synonym addr = nat

record node_table =
  df :: "addr option"

record edge_table =
  edge_df :: "edge_row list option"

text \<open>The fourteen subclasses of \<^verbatim>\<open>MultiNodeModel\<close> that \<^verbatim>\<open>Model\<close> declares a field for.\<close>

datatype node_kind =
    Basin | LinearResistance | ManningResistance | TabulatedRatingCurve | FractionalFlow
  | Pump | LevelBoundary | FlowBoundary | Outlet | Terminal | DiscreteControl | PidControl
  | UserDemand | LevelDemand

record multi_node_model =
  kind :: node_kind
  node :: node_table

text \<open>
  Modelled from the spec: the classes \<^verbatim>\<open>Allocation\<close>, \<^verbatim>\<open>Logging\<close>, \<^verbatim>\<open>Solver\<close> and
  \<^verbatim>\<open>Results\<close> of \<^verbatim>\<open>ribasim.config\<close> are "scalar configuration groups". A group is a
  pydantic model: its declared fields in order, each with its current value
  (\<open>None\<close> is Python's \<^verbatim>\<open>None\<close>), and the names that were explicitly set
  (\<^verbatim>\<open>model_fields_set\<close>).
\<close>

record settings =
  entries :: "(string \<times> toml_value option) list"
  fields_set :: "string set"

datatype field_name =
    F_starttime | F_endtime | F_input_dir | F_results_dir
  | F_allocation | F_logging | F_solver | F_results
  | F_basin | F_linear_resistance | F_manning_resistance | F_tabulated_rating_curve
  | F_fractional_flow | F_pump | F_level_boundary | F_flow_boundary | F_outlet | F_terminal
  | F_discrete_control | F_pid_control | F_user_demand | F_level_demand
  | F_edge

record Model =
  starttime :: datetime
  endtime :: datetime
  input_dir :: path
  results_dir :: path
  allocation :: settings
  logging :: settings
  solver :: settings
  results :: settings
  basin :: multi_node_model
  linear_resistance :: multi_node_model
  manning_resistance :: multi_node_model
  tabulated_rating_curve :: multi_node_model
  fractional_flow :: multi_node_model
  pump :: multi_node_model
  level_boundary :: multi_node_model
  flow_boundary :: multi_node_model
  outlet :: multi_node_model
  terminal :: multi_node_model
  discrete_control :: multi_node_model
  pid_control :: multi_node_model
  user_demand :: multi_node_model
  level_demand :: multi_node_model
  edge :: edge_table
  model_fields_set :: "field_name set"

text \<open>What \<^verbatim>\<open>getattr(self, key)\<close> returns, tagged by the class the \<^verbatim>\<open>isinstance\<close> tests see.\<close>

datatype field_value =
    VDatetime datetime
  | VPath path
  | VSettings settings
  | VMultiNode multi_node_model
  | VEdge edge_table

text \<open>
  \<^verbatim>\<open>self.model_fields.keys()\<close>: the fields \<^verbatim>\<open>Model\<close> declares, in declaration order.
  (The field \<^verbatim>\<open>filepath\<close> it inherits from \<^verbatim>\<open>FileModel\<close> is no sub-model and is
  excluded from dumps; it is left out.)
\<close>

definition model_fields_keys :: "field_name list" where
  "model_fields_keys =
     [F_starttime, F_endtime, F_input_dir, F_results_dir,
      F_allocation, F_logging, F_solver, F_results,
      F_basin, F_linear_resistance, F_manning_resistance, F_tabulated_rating_curve,
      F_fractional_flow, F_pump, F_level_boundary, F_flow_boundary, F_outlet, F_terminal,
      F_discrete_control, F_pid_control, F_user_demand, F_level_demand,
      F_edge]"

fun getattr :: "Model \<Rightarrow> field_name \<Rightarrow> field_value" where
  "getattr m F_starttime = VDatetime (starttime m)"
| "getattr m F_endtime = VDatetime (endtime m)"
| "getattr m F_input_dir = VPath (input_dir m)"
| "getattr m F_results_dir = VPath (results_dir m)"
| "getattr m F_allocation = VSettings (allocation m)"
| "getattr m F_logging = VSettings (logging m)"
| "getattr m F_solver = VSettings (solver m)"
| "getattr m F_results = VSettings (results m)"
| "getattr m F_basin = VMultiNode (basin m)"
| "getattr m F_linear_resistance = VMultiNode (linear_resistance m)"
| "getattr m F_manning_resistance = VMultiNode (manning_resistance m)"
| "getattr m F_tabulated_rating_curve = VMultiNode (tabulated_rating_curve m)"
| "getattr m F_fractional_flow = VMultiNode (fractional_flow m)"
| "getattr m F_pump = VMultiNode (pump m)"
| "getattr m F_level_boundary = VMultiNode (level_boundary m)"
| "getattr m F_flow_boundary = VMultiNode (flow_boundary m)"
| "getattr m F_outlet = VMultiNode (outlet m)"
| "getattr m F_terminal = VMultiNode (terminal m)"
| "getattr m F_discrete_control = VMultiNode (discrete_control m)"
| "getattr m F_pid_control = VMultiNode (pid_control m)"
| "getattr m F_user_demand = VMultiNode (user_demand m)"
| "getattr m F_level_demand = VMultiNode (level_demand m)"
| "getattr m F_edge = VEdge (edge m)"

section \<open>The world: file system, context variable, dataframes\<close>

datatype layer = NodeLayer "node_row list" | EdgeLayer "edge_row list"

text \<open>
  A file holds what was written to it: the dict given to \<^verbatim>\<open>tomli_w.dump\<close>, or the
  named layers of a GeoPackage.
\<close>

datatype fs_node = Dir | TomlFile toml_dict | GpkgFile "(string \<times> layer) list"

record world =
  files :: "path \<Rightarrow> fs_node option"
  context_file_loading :: "string \<Rightarrow> path option"
  frames :: "addr \<Rightarrow> node_row list"
  next_frame :: addr

section \<open>Paths and the file system\<close>

text \<open>The \<^verbatim>\<open>/\<close> operator of \<^verbatim>\<open>pathlib\<close>: an absolute right operand replaces the left one.\<close>

definition joinpath :: "path \<Rightarrow> path \<Rightarrow> path" where
  "joinpath a b = (if is_absolute b then b else Path (is_absolute a) (parts a @ parts b))"

text \<open>\<^verbatim>\<open>Path(".").parent\<close> is \<^verbatim>\<open>Path(".")\<close> and the parent of the root is the root.\<close>

definition parent :: "path \<Rightarrow> path" where
  "parent p = Path (is_absolute p) (butlast (parts p))"

definition name :: "path \<Rightarrow> string" where
  "name p = (if parts p = [] then [] else last (parts p))"

fun rfind :: "char \<Rightarrow> string \<Rightarrow> nat option" where
  "rfind c [] = None"
| "rfind c (x # xs) =
     (case rfind c xs of
        Some i \<Rightarrow> Some (Suc i)
      | None \<Rightarrow> if x = c then Some 0 else None)"

text \<open>
  \<^verbatim>\<open>PurePath.suffix\<close>: with \<^verbatim>\<open>i = name.rfind('.')\<close>, the name from \<^verbatim>\<open>i\<close> on when
  \<^verbatim>\<open>0 < i < len(name) - 1\<close>, and the empty string otherwise.
\<close>

definition suffix :: "path \<Rightarrow> string" where
  "suffix p =
     (case rfind (CHR ''.'') (name p) of
        None \<Rightarrow> []
      | Some i \<Rightarrow> if 0 < i \<and> Suc i < length (name p) then drop i (name p) else [])"

fun join_sep :: "string list \<Rightarrow> string" where
  "join_sep [] = []"
| "join_sep [x] = x"
| "join_sep (x # y # ys) = x @ ''/'' @ join_sep (y # ys)"

text \<open>\<^verbatim>\<open>str(path)\<close>, which is what the field serializer \<^verbatim>\<open>serialize_path\<close> returns.\<close>

definition serialize_path :: "path \<Rightarrow> string" where
  "serialize_path p =
     (if is_absolute p then ''/'' @ join_sep (parts p)
      else if parts p = [] then ''.''
      else join_sep (parts p))"

text \<open>The working directory and the root always exist and are directories.\<close>

definition path_exists :: "world \<Rightarrow> path \<Rightarrow> bool" where
  "path_exists w p = (parts p = [] \<or> files w p \<noteq> None)"

definition is_dir :: "world \<Rightarrow> path \<Rightarrow> bool" where
  "is_dir w p = (parts p = [] \<or> files w p = Some Dir)"

text \<open>
  A step that may raise: the result or the exception, and the world as it is at that
  moment. \<open>then_io\<close> runs the second step only when the first one returned.
\<close>

type_synonym 'a io = "world \<Rightarrow> (error + 'a) \<times> world"

definition then_io :: "'a io \<Rightarrow> ('a \<Rightarrow> 'b io) \<Rightarrow> 'b io" where
  "then_io f g w = (case f w of (Inl e, w1) \<Rightarrow> (Inl e, w1) | (Inr x, w1) \<Rightarrow> g x w1)"

text \<open>\<^verbatim>\<open>context_file_loading.set({})\<close>.\<close>

definition context_set_empty :: "unit io" where
  "context_set_empty w = (Inr (), w\<lparr>context_file_loading := Map.empty\<rparr>)"

definition os_mkdir :: "path \<Rightarrow> unit io" where
  "os_mkdir p w =
     (if path_exists w p then (Inl FileExistsError, w)
      else if \<not> path_exists w (parent p) then (Inl FileNotFoundError, w)
      else if \<not> is_dir w (parent p) then (Inl NotADirectoryError, w)
      else (Inr (), w\<lparr>files := (files w)(p \<mapsto> Dir)\<rparr>))"

text \<open>\<^verbatim>\<open>Path.mkdir(parents=False, exist_ok=True)\<close>.\<close>

definition mkdir_exist_ok :: "path \<Rightarrow> unit io" where
  "mkdir_exist_ok p w =
     (case os_mkdir p w of
        (Inr u, w1) \<Rightarrow> (Inr u, w1)
      | (Inl e, w1) \<Rightarrow>
          if e = FileNotFoundError then (Inl e, w1)
          else if is_dir w1 p then (Inr (), w1)
          else (Inl e, w1))"

text \<open>
  \<^verbatim>\<open>Path.mkdir(parents=True, exist_ok=True)\<close>, as \<^verbatim>\<open>pathlib\<close> writes it: try
  \<^verbatim>\<open>os.mkdir\<close>; on \<^verbatim>\<open>FileNotFoundError\<close> make the parent first and try again; on
  any other \<^verbatim>\<open>OSError\<close> succeed when the path is a directory already.
\<close>

function mkdir :: "path \<Rightarrow> unit io" where
  "mkdir p w =
     (case os_mkdir p w of
        (Inr u, w1) \<Rightarrow> (Inr u, w1)
      | (Inl e, w1) \<Rightarrow>
          if e = FileNotFoundError then
            (if parent p = p then (Inl e, w1)
             else (case mkdir (parent p) w1 of
                     (Inl e2, w2) \<Rightarrow> (Inl e2, w2)
                   | (Inr u, w2) \<Rightarrow> mkdir_exist_ok p w2))
          else if is_dir w1 p then (Inr (), w1)
          else (Inl e, w1))"
  by pat_completeness auto
termination
proof (relation "measure (\<lambda>(p, w). length (parts p))")
  show "wf (measure (\<lambda>(p, w). length (parts p)))" by simp
next
  fix p :: path and w x1 x2 e
  assume "parent p \<noteq> p"
  then have "parts p \<noteq> []"
    by (cases p) (auto simp: parent_def)
  then show "((parent p, x2), (p, w)) \<in> measure (\<lambda>(p, w). length (parts p))"
    by (simp add: parent_def)
qed

declare mkdir.simps [simp del]

text \<open>\<^verbatim>\<open>Path.unlink(missing_ok=True)\<close>.\<close>

definition unlink :: "path \<Rightarrow> unit io" where
  "unlink p w =
     (if parts p = [] then (Inl IsADirectoryError, w)
      else (case files w p of
              None \<Rightarrow> (Inr (), w)
            | Some Dir \<Rightarrow> (Inl IsADirectoryError, w)
            | Some _ \<Rightarrow> (Inr (), w\<lparr>files := (files w)(p := None)\<rparr>)))"

text \<open>
  \<^verbatim>\<open>with open(fn, "wb") as f: tomli_w.dump(content, f)\<close>: the file is created or
  truncated, and holds the dumped dict.
\<close>

definition tomli_w_dump :: "path \<Rightarrow> toml_dict \<Rightarrow> unit io" where
  "tomli_w_dump fn content w =
     (if is_dir w fn then (Inl IsADirectoryError, w)
      else if \<not> path_exists w (parent fn) then (Inl FileNotFoundError, w)
      else if \<not> is_dir w (parent fn) then (Inl NotADirectoryError, w)
      else (Inr (), w\<lparr>files := (files w)(fn \<mapsto> TomlFile content)\<rparr>))"

section \<open>The unified node table\<close>

text \<open>
  The test of \<^verbatim>\<open>_nodes\<close> on one attribute: an instance of \<^verbatim>\<open>MultiNodeModel\<close> whose
  \<^verbatim>\<open>node.df\<close> is not \<^verbatim>\<open>None\<close> and not empty is yielded.
\<close>

fun nodes_yield :: "world \<Rightarrow> field_value \<Rightarrow> multi_node_model option" where
  "nodes_yield w (VMultiNode attr) =
     (case df (node attr) of
        None \<Rightarrow> None
      | Some a \<Rightarrow> if frames w a = [] then None else Some attr)"
| "nodes_yield w _ = None"

definition Model_nodes :: "world \<Rightarrow> Model \<Rightarrow> multi_node_model list" where
  "Model_nodes w m = List.map_filter (\<lambda>key. nodes_yield w (getattr m key)) model_fields_keys"

text \<open>
  \<^verbatim>\<open>pd.concat(df_chunks, ignore_index=True)\<close>: raises \<^verbatim>\<open>ValueError\<close> ("No objects to
  concatenate") on an empty list, and otherwise builds a new dataframe holding the rows
  of the chunks in order.
\<close>

definition pd_concat :: "addr list \<Rightarrow> world \<Rightarrow> (error + addr) \<times> world" where
  "pd_concat df_chunks w =
     (if df_chunks = [] then (Inl ValueError, w)
      else (Inr (next_frame w),
            w\<lparr>frames := (frames w)(next_frame w := concat (map (frames w) df_chunks)),
              next_frame := Suc (next_frame w)\<rparr>))"

text \<open>
  Modelled from the spec: \<^verbatim>\<open>NodeTable.sort\<close> of \<^verbatim>\<open>ribasim.geometry.node\<close> is not
  part of the sources. It "reorders rows by node ID ascending; stable for ties", in
  place, on the dataframe of the table.
\<close>

definition NodeTable_sort :: "node_table \<Rightarrow> world \<Rightarrow> world" where
  "NodeTable_sort t w =
     (case df t of
        None \<Rightarrow> w
      | Some a \<Rightarrow> w\<lparr>frames := (frames w)(a := sort_key node_id (frames w a))\<rparr>)"

text \<open>
  \<^verbatim>\<open>node_table\<close>: the chunks are the dataframes of the sub-models \<^verbatim>\<open>_nodes\<close> yields
  (none of which is \<^verbatim>\<open>None\<close>); the new table wraps the concatenated dataframe and is
  sorted in place.
\<close>

definition node_table :: "Model \<Rightarrow> node_table io" where
  "node_table m w =
     (let df_chunks = List.map_filter (\<lambda>n. df (node n)) (Model_nodes w m) in
      case pd_concat df_chunks w of
        (Inl e, w1) \<Rightarrow> (Inl e, w1)
      | (Inr a, w1) \<Rightarrow>
          (let nt = \<lparr>df = Some a\<rparr> in
           (Inr nt, NodeTable_sort nt w1)))"

section \<open>Saving to the geometry store\<close>

text \<open>
  Modelled from the spec: the \<^verbatim>\<open>_save\<close> methods of \<^verbatim>\<open>EdgeTable\<close> and of the node
  sub-models (\<^verbatim>\<open>ribasim.geometry\<close>, \<^verbatim>\<open>ribasim.input_base\<close>) are not part of the
  sources. A populated table is written "to its own named layer in the store", "keyed
  by a stable layer name per table purpose"; the store is the one the context names
  under \<^verbatim>\<open>"database"\<close> ("consulted by nested sub-model IO calls"). A table that is
  \<^verbatim>\<open>None\<close> is not written; with no store in the context nothing is written.
\<close>

definition write_layer :: "string \<Rightarrow> layer \<Rightarrow> unit io" where
  "write_layer nm l w =
     (case context_file_loading w ''database'' of
        None \<Rightarrow> (Inr (), w)
      | Some db_path \<Rightarrow>
          (case files w db_path of
             Some Dir \<Rightarrow> (Inl IsADirectoryError, w)
           | Some (GpkgFile ls) \<Rightarrow>
               (Inr (), w\<lparr>files := (files w)(db_path \<mapsto> GpkgFile (AList.update nm l ls))\<rparr>)
           | _ \<Rightarrow> (Inr (), w\<lparr>files := (files w)(db_path \<mapsto> GpkgFile [(nm, l)])\<rparr>)))"

text \<open>
  Modelled from the spec: \<^verbatim>\<open>EdgeTable._save\<close>, not part of the sources; the edge
  table goes to the layer \<^verbatim>\<open>Edge\<close> when it is populated.
\<close>

definition EdgeTable_save :: "edge_table \<Rightarrow> unit io" where
  "EdgeTable_save e w =
     (case edge_df e of
        None \<Rightarrow> (Inr (), w)
      | Some rows \<Rightarrow> write_layer ''Edge'' (EdgeLayer rows) w)"

text \<open>
  Modelled from the spec: the "stable layer name per table purpose" of a node table is
  taken to be the name of the sub-model's class.
\<close>

fun tablename :: "node_kind \<Rightarrow> string" where
  "tablename Basin = ''Basin''"
| "tablename LinearResistance = ''LinearResistance''"
| "tablename ManningResistance = ''ManningResistance''"
| "tablename TabulatedRatingCurve = ''TabulatedRatingCurve''"
| "tablename FractionalFlow = ''FractionalFlow''"
| "tablename Pump = ''Pump''"
| "tablename LevelBoundary = ''LevelBoundary''"
| "tablename FlowBoundary = ''FlowBoundary''"
| "tablename Outlet = ''Outlet''"
| "tablename Terminal = ''Terminal''"
| "tablename DiscreteControl = ''DiscreteControl''"
| "tablename PidControl = ''PidControl''"
| "tablename UserDemand = ''UserDemand''"
| "tablename LevelDemand = ''LevelDemand''"

text \<open>
  Modelled from the spec: \<^verbatim>\<open>_save\<close> of a node sub-model, not part of the sources; its
  node table goes to the layer of its class when it is present. (The parameter tables of
  a sub-model other than its node table are outside the properties stated here and are
  left out.)
\<close>

definition MultiNodeModel_save :: "multi_node_model \<Rightarrow> unit io" where
  "MultiNodeModel_save sub w =
     (case df (node sub) of
        None \<Rightarrow> (Inr (), w)
      | Some a \<Rightarrow> write_layer (tablename (kind sub)) (NodeLayer (frames w a)) w)"

text \<open>
  The loop \<^verbatim>\<open>for sub in self._nodes(): sub._save(directory, input_dir)\<close> of
  \<^verbatim>\<open>Model._save\<close>, and \<^verbatim>\<open>Model._save\<close> itself.
\<close>

fun save_each :: "multi_node_model list \<Rightarrow> unit io" where
  "save_each [] w = (Inr (), w)"
| "save_each (sub # subs) w =
     (case MultiNodeModel_save sub w of
        (Inl e, w1) \<Rightarrow> (Inl e, w1)
      | (Inr u, w1) \<Rightarrow> save_each subs w1)"

definition Model_save :: "Model \<Rightarrow> path \<Rightarrow> path \<Rightarrow> unit io" where
  "Model_save m directory input_dir' =
     (let db_path = joinpath (joinpath directory input_dir') (Path False [''database.gpkg'']) in
      then_io (mkdir (parent db_path)) (\<lambda>_.
      then_io (unlink db_path) (\<lambda>_.
      then_io (\<lambda>w. (Inr (), w\<lparr>context_file_loading :=
                                 (context_file_loading w)(''database'' \<mapsto> db_path)\<rparr>)) (\<lambda>_.
      then_io (EdgeTable_save (edge m)) (\<lambda>_ w.
      save_each (Model_nodes w m) w)))))"

section \<open>Writing the configuration file\<close>

text \<open>\<^verbatim>\<open>by_alias=True\<close>: no field of \<^verbatim>\<open>Model\<close> declares an alias, so the key is the field's name.\<close>

fun field_alias :: "field_name \<Rightarrow> string" where
  "field_alias F_starttime = ''starttime''"
| "field_alias F_endtime = ''endtime''"
| "field_alias F_input_dir = ''input_dir''"
| "field_alias F_results_dir = ''results_dir''"
| "field_alias F_allocation = ''allocation''"
| "field_alias F_logging = ''logging''"
| "field_alias F_solver = ''solver''"
| "field_alias F_results = ''results''"
| "field_alias F_basin = ''basin''"
| "field_alias F_linear_resistance = ''linear_resistance''"
| "field_alias F_manning_resistance = ''manning_resistance''"
| "field_alias F_tabulated_rating_curve = ''tabulated_rating_curve''"
| "field_alias F_fractional_flow = ''fractional_flow''"
| "field_alias F_pump = ''pump''"
| "field_alias F_level_boundary = ''level_boundary''"
| "field_alias F_flow_boundary = ''flow_boundary''"
| "field_alias F_outlet = ''outlet''"
| "field_alias F_terminal = ''terminal''"
| "field_alias F_discrete_control = ''discrete_control''"
| "field_alias F_pid_control = ''pid_control''"
| "field_alias F_user_demand = ''user_demand''"
| "field_alias F_level_demand = ''level_demand''"
| "field_alias F_edge = ''edge''"

text \<open>\<^verbatim>\<open>ribasim.__version__\<close>, from \<^verbatim>\<open>ribasim/__init__.py\<close>.\<close>

definition ribasim_version :: string where
  "ribasim_version = ''0.2.0''"

text \<open>\<^verbatim>\<open>self.model_fields_set.update({"input_dir", "results_dir"})\<close>.\<close>

definition model_post_init :: "Model \<Rightarrow> Model" where
  "model_post_init m = m\<lparr>model_fields_set := model_fields_set m \<union> {F_input_dir, F_results_dir}\<rparr>"

text \<open>
  \<^verbatim>\<open>model_dump(exclude_unset=True, exclude_none=True)\<close> on a settings group: a declared
  field is emitted when it was explicitly set and its value is not \<^verbatim>\<open>None\<close>.
\<close>

definition dump_settings :: "settings \<Rightarrow> toml_dict" where
  "dump_settings g =
     List.map_filter
       (\<lambda>(k, v). if k \<in> fields_set g then map_option (Pair k) v else None)
       (entries g)"

text \<open>
  The dumped value of one field of \<^verbatim>\<open>Model\<close>; \<open>None\<close> when the field is dropped by
  \<^verbatim>\<open>exclude_none\<close>. The serializers of the node sub-models and of the edge table are
  not part of the sources: they are the parameter \<open>ser\<close>.
\<close>

fun dump_value :: "(field_value \<Rightarrow> toml_value option) \<Rightarrow> field_value \<Rightarrow> toml_value option" where
  "dump_value ser (VDatetime d) = Some (TDatetime d)"
| "dump_value ser (VPath p) = Some (TStr (serialize_path p))"
| "dump_value ser (VSettings g) = Some (TTable (dump_settings g))"
| "dump_value ser (VMultiNode s) = ser (VMultiNode s)"
| "dump_value ser (VEdge e) = ser (VEdge e)"

definition model_dump :: "(field_value \<Rightarrow> toml_value option) \<Rightarrow> Model \<Rightarrow> toml_dict" where
  "model_dump ser m =
     List.map_filter
       (\<lambda>key. if key \<in> model_fields_set m
               then map_option (Pair (field_alias key)) (dump_value ser (getattr m key))
               else None)
       model_fields_keys"

text \<open>Python's truth value of a dumped value, the test of \<^verbatim>\<open>filter(lambda x: x[1], ...)\<close>.\<close>

fun truthy :: "toml_value \<Rightarrow> bool" where
  "truthy (TStr s) = (s \<noteq> [])"
| "truthy (TInt i) = (i \<noteq> 0)"
| "truthy (TFloat r) = (r \<noteq> 0)"
| "truthy (TBool b) = b"
| "truthy (TDatetime d) = True"
| "truthy (TTable t) = (t \<noteq> [])"

definition toml_content :: "(field_value \<Rightarrow> toml_value option) \<Rightarrow> Model \<Rightarrow> toml_dict" where
  "toml_content ser m =
     (let content = model_dump ser m;
          content = filter (\<lambda>x. truthy (snd x)) content
      in AList.update ''ribasim_version'' (TStr ribasim_version) content)"

definition Model_write_toml :: "(field_value \<Rightarrow> toml_value option) \<Rightarrow> Model \<Rightarrow> path \<Rightarrow> path io" where
  "Model_write_toml ser m fn =
     then_io (tomli_w_dump fn (toml_content ser m)) (\<lambda>_ w. (Inr fn, w))"

definition Model_write :: "(field_value \<Rightarrow> toml_value option) \<Rightarrow> Model \<Rightarrow> path \<Rightarrow> path io" where
  "Model_write ser m filepath =
     (if suffix filepath \<noteq> ''.toml'' then (\<lambda>w. (Inl ValueError, w))
      else
        then_io context_set_empty (\<lambda>_.
        let directory = parent filepath in
        then_io (mkdir directory) (\<lambda>_.
        then_io (Model_save m directory (input_dir m)) (\<lambda>_.
        then_io (Model_write_toml ser m filepath) (\<lambda>fn.
        then_io context_set_empty (\<lambda>_ w. (Inr fn, w)))))))"

section \<open>Loading the configuration file\<close>

text \<open>Splitting a string at the separator \<^verbatim>\<open>/\<close>.\<close>

fun split_sep :: "string \<Rightarrow> string list" where
  "split_sep [] = [[]]"
| "split_sep (c # cs) =
     (if c = CHR ''/'' then [] # split_sep cs
      else (case split_sep cs of
              [] \<Rightarrow> [[c]]
            | x # xs \<Rightarrow> (c # x) # xs))"

text \<open>
  \<^verbatim>\<open>Path(s)\<close> for a string: anchored when the string starts with the separator; empty
  components and \<^verbatim>\<open>"."\<close> components are dropped. (A path has one kind of root here:
  the root of exactly two separators, which \<^verbatim>\<open>pathlib\<close> keeps apart from the root of
  one, is read as the root of one.)
\<close>

definition path_of_str :: "string \<Rightarrow> path" where
  "path_of_str s =
     Path (case s of [] \<Rightarrow> False | c # _ \<Rightarrow> c = CHR ''/'')
          (filter (\<lambda>c. c \<noteq> [] \<and> c \<noteq> ''.'') (split_sep s))"

text \<open>
  \<^verbatim>\<open>with open(filepath, "rb") as f: config = tomli.load(f)\<close>. Opening a directory, a
  path under a regular file or a missing file raises; the bytes of a store are no UTF-8
  text, so \<^verbatim>\<open>tomli.load\<close> raises when it decodes them. (A file of this model that holds
  a dict always parses.)
\<close>

definition tomli_load :: "path \<Rightarrow> toml_dict io" where
  "tomli_load fp w =
     (if is_dir w fp then (Inl IsADirectoryError, w)
      else (case files w fp of
              Some (TomlFile config) \<Rightarrow> (Inr config, w)
            | Some _ \<Rightarrow> (Inl UnicodeDecodeError, w)
            | None \<Rightarrow>
                if path_exists w (parent fp) \<and> \<not> is_dir w (parent fp)
                then (Inl NotADirectoryError, w)
                else (Inl FileNotFoundError, w)))"

text \<open>
  \<^verbatim>\<open>filepath.parent / config.get("input_dir", ".")\<close>: the operator accepts a string
  and raises \<^verbatim>\<open>TypeError\<close> on any other TOML value.
\<close>

definition load_directory :: "path \<Rightarrow> toml_dict \<Rightarrow> error + path" where
  "load_directory filepath config =
     (case map_of config ''input_dir'' of
        None \<Rightarrow> Inr (joinpath (parent filepath) (path_of_str ''.''))
      | Some (TStr s) \<Rightarrow> Inr (joinpath (parent filepath) (path_of_str s))
      | Some _ \<Rightarrow> Inl TypeError)"

definition Model_load :: "path option \<Rightarrow> toml_dict io" where
  "Model_load filepath =
     then_io context_set_empty (\<lambda>_.
       case filepath of
         Some fp \<Rightarrow>
           then_io (tomli_load fp) (\<lambda>config w.
             case load_directory fp config of
               Inl e \<Rightarrow> (Inl e, w)
             | Inr directory \<Rightarrow>
                 (Inr config,
                  w\<lparr>context_file_loading := (context_file_loading w)
                       (''directory'' \<mapsto> directory,
                        ''database'' \<mapsto> joinpath directory (Path False [''database.gpkg'']))\<rparr>))
       | None \<Rightarrow> (\<lambda>w. (Inr [], w)))"

text \<open>The validator \<^verbatim>\<open>reset_contextvar\<close>, run after a construction that succeeded.\<close>

definition reset_contextvar :: "Model \<Rightarrow> Model io" where
  "reset_contextvar m = then_io context_set_empty (\<lambda>_ w. (Inr m, w))"

section \<open>Reading a model\<close>

text \<open>
  Modelled from the spec: \<^verbatim>\<open>read\<close> is \<^verbatim>\<open>cls(filepath=filepath)\<close>, and the constructor
  of \<^verbatim>\<open>FileModel\<close> and the loading of tables (\<^verbatim>\<open>ribasim.input_base\<close>,
  \<^verbatim>\<open>ribasim.geometry\<close>) are not part of the sources. By the spec, \<^verbatim>\<open>read\<close> "parses
  [the file], establishes a transient load context [\<^verbatim>\<open>_load\<close> above], constructs a
  \<^verbatim>\<open>Model\<close> instance from the parsed fields, hydrates every sub-model's tables from the
  geometry store, and resets the load context"; each table is read from its "named layer
  of the shared geometry store", the store being the one the context names. A node
  sub-model with no layer gets an empty node table (the comment in \<^verbatim>\<open>_nodes\<close>:
  "Model.read creates empty node tables"); an edge table with no layer is \<^verbatim>\<open>None\<close>.
\<close>
















section \<open>Unimplemented checks\<close>

definition validate_model_node_field_ids :: "Model \<Rightarrow> error + unit" where
  "validate_model_node_field_ids m = Inl NotImplementedError"

definition validate_model_node_ids :: "Model \<Rightarrow> error + unit" where
  "validate_model_node_ids m = Inl NotImplementedError"

definition validate_model :: "Model \<Rightarrow> error + unit" where
  "validate_model m =
     (case validate_model_node_field_ids m of
        Inl e \<Rightarrow> Inl e
      | Inr _ \<Rightarrow> validate_model_node_ids m)"

definition plot_control_listen :: "Model \<Rightarrow> 'ax \<Rightarrow> error + unit" where
  "plot_control_listen m ax = Inl NotImplementedError"

section \<open>Predicates and example values\<close>

text \<open>A sub-model is populated when its node dataframe is present and has a row.\<close>

definition populated :: "world \<Rightarrow> multi_node_model \<Rightarrow> bool" where
  "populated w s = (case df (node s) of None \<Rightarrow> False | Some a \<Rightarrow> frames w a \<noteq> [])"

definition node_rows :: "world \<Rightarrow> multi_node_model \<Rightarrow> node_row list" where
  "node_rows w s = (case df (node s) of None \<Rightarrow> [] | Some a \<Rightarrow> frames w a)"

text \<open>The node sub-models of a model, in the order of their declaration.\<close>

definition node_fields :: "Model \<Rightarrow> multi_node_model list" where
  "node_fields m =
     [basin m, linear_resistance m, manning_resistance m, tabulated_rating_curve m,
      fractional_flow m, pump m, level_boundary m, flow_boundary m, outlet m, terminal m,
      discrete_control m, pid_control m, user_demand m, level_demand m]"

text \<open>Every dataframe a sub-model refers to has been allocated.\<close>

definition allocated :: "world \<Rightarrow> Model \<Rightarrow> bool" where
  "allocated w m =
     (\<forall>s \<in> set (node_fields m). \<forall>a. df (node s) = Some a \<longrightarrow> a < next_frame w)"

text \<open>
  The invariant of a parsed \<^verbatim>\<open>pathlib\<close> path: no component is empty, is \<^verbatim>\<open>"."\<close> or
  holds a separator.
\<close>

definition path_ok :: "path \<Rightarrow> bool" where
  "path_ok p = (\<forall>c \<in> set (parts p). c \<noteq> [] \<and> c \<noteq> ''.'' \<and> CHR ''/'' \<notin> set c)"

text \<open>Where \<^verbatim>\<open>write(filepath)\<close> puts the geometry store of a model.\<close>

definition store_path :: "Model \<Rightarrow> path \<Rightarrow> path" where
  "store_path m filepath =
     joinpath (joinpath (parent filepath) (input_dir m)) (Path False [''database.gpkg''])"

text \<open>The part of \<^verbatim>\<open>_save\<close> that runs once the store path is in the context.\<close>

definition store_phase :: "Model \<Rightarrow> unit io" where
  "store_phase m =
     then_io (EdgeTable_save (edge m)) (\<lambda>_ w. save_each (Model_nodes w m) w)"

text \<open>The world with the file at one path replaced.\<close>

definition at_store :: "path \<Rightarrow> fs_node option \<Rightarrow> world \<Rightarrow> world" where
  "at_store db n w = w\<lparr>files := (files w)(db := n)\<rparr>"

text \<open>
  Two worlds that name the same store in their context, hold the same file there and
  the same dataframes.
\<close>

definition same_store :: "path \<Rightarrow> world \<Rightarrow> world \<Rightarrow> bool" where
  "same_store db w v =
     (context_file_loading w ''database'' = Some db \<and> context_file_loading v ''database'' = Some db
      \<and> files w db = files v db \<and> frames w = frames v)"

text \<open>The second world has the files of the first, and possibly new directories.\<close>

definition grows :: "world \<Rightarrow> world \<Rightarrow> bool" where
  "grows w w' =
     (\<exists>f. w' = w\<lparr>files := f\<rparr>
        \<and> (\<forall>q. f q = files w q \<or> (files w q = None \<and> f q = Some Dir)))"




definition unused :: "node_kind \<Rightarrow> multi_node_model" where
  "unused k = \<lparr>kind = k, node = \<lparr>df = None\<rparr>\<rparr>"

definition default_settings :: settings where
  "default_settings = \<lparr>entries = [], fields_set = {}\<rparr>"

text \<open>\<^verbatim>\<open>Model(starttime=2020-01-01, endtime=2020-12-31)\<close>: every other field at its default.\<close>

definition default_model :: Model where
  "default_model =
     \<lparr>starttime = Datetime 2020 1 1 0 0 0, endtime = Datetime 2020 12 31 0 0 0,
      input_dir = Path False [], results_dir = Path False [''results''],
      allocation = default_settings, logging = default_settings,
      solver = default_settings, results = default_settings,
      basin = unused Basin, linear_resistance = unused LinearResistance,
      manning_resistance = unused ManningResistance,
      tabulated_rating_curve = unused TabulatedRatingCurve,
      fractional_flow = unused FractionalFlow, pump = unused Pump,
      level_boundary = unused LevelBoundary, flow_boundary = unused FlowBoundary,
      outlet = unused Outlet, terminal = unused Terminal,
      discrete_control = unused DiscreteControl, pid_control = unused PidControl,
      user_demand = unused UserDemand, level_demand = unused LevelDemand,
      edge = \<lparr>edge_df = None\<rparr>,
      model_fields_set = {F_starttime, F_endtime, F_input_dir, F_results_dir}\<rparr>"

definition empty_world :: world where
  "empty_world =
     \<lparr>files = Map.empty, context_file_loading = Map.empty, frames = (\<lambda>a. []), next_frame = 0\<rparr>"

text \<open>
  Two basins (IDs 3 and 1), a pump (ID 2), a terminal whose node table is present but
  empty, one edge from basin 1 to the pump, and a solver group in which \<^verbatim>\<open>algorithm\<close>
  was set, \<^verbatim>\<open>dt\<close> was set to none and \<^verbatim>\<open>saveat\<close> was left at its default.
\<close>

definition example_world :: world where
  "example_world =
     empty_world\<lparr>frames := (\<lambda>a. [])
         (0 := [\<lparr>node_id = 3, node_type = ''Basin'', node_name = ''b3''\<rparr>,
                \<lparr>node_id = 1, node_type = ''Basin'', node_name = ''b1''\<rparr>],
          1 := [\<lparr>node_id = 2, node_type = ''Pump'', node_name = ''p2''\<rparr>],
          2 := []),
       next_frame := 3\<rparr>"

definition example_model :: Model where
  "example_model =
     default_model\<lparr>
       basin := \<lparr>kind = Basin, node = \<lparr>df = Some 0\<rparr>\<rparr>,
       pump := \<lparr>kind = Pump, node = \<lparr>df = Some 1\<rparr>\<rparr>,
       terminal := \<lparr>kind = Terminal, node = \<lparr>df = Some 2\<rparr>\<rparr>,
       edge := \<lparr>edge_df = Some [\<lparr>edge_id = 1, from_node_id = 1, to_node_id = 2,
                                  edge_type = ''flow''\<rparr>]\<rparr>,
       solver := \<lparr>entries = [(''algorithm'', Some (TStr ''QNDF'')), (''dt'', None),
                             (''saveat'', Some (TInt 86400))],
                  fields_set = {''algorithm'', ''dt''}\<rparr>,
       model_fields_set := {F_starttime, F_endtime, F_input_dir, F_results_dir,
                            F_solver, F_basin, F_pump, F_terminal, F_edge}\<rparr>"

definition model_toml :: path where
  "model_toml = Path False [''model'', ''model.toml'']"

definition model_csv :: path where
  "model_csv = Path False [''model'', ''model.csv'']"

text \<open>A world in which \<^verbatim>\<open>model/model.toml\<close> is a directory.\<close>

definition blocked_world :: world where
  "blocked_world =
     example_world\<lparr>files := [Path False [''model''] \<mapsto> Dir, model_toml \<mapsto> Dir]\<rparr>"

definition no_serializer :: "field_value \<Rightarrow> toml_value option" where
  "no_serializer v = None"


section \<open>Properties of the unified node table\<close>

lemma map_filter_Cons_append:
  "List.map_filter f (x # xs) =
     (case f x of None \<Rightarrow> [] | Some y \<Rightarrow> [y]) @ List.map_filter f xs"
  by (simp add: List.map_filter_simps split: option.split)

lemma Model_nodes_fields:
  "Model_nodes w m = List.map_filter (\<lambda>s. nodes_yield w (VMultiNode s)) (node_fields m)"
  by (simp add: Model_nodes_def model_fields_keys_def node_fields_def map_filter_Cons_append
        del: nodes_yield.simps(1) List.map_filter_simps(2))

lemma map_filter_nodes_yield:
  "List.map_filter (\<lambda>s. nodes_yield w (VMultiNode s)) xs = filter (populated w) xs"
  by (induction xs) (auto simp: populated_def split: option.splits)

lemma Model_nodes_filter: "Model_nodes w m = filter (populated w) (node_fields m)"
  unfolding Model_nodes_fields by (rule map_filter_nodes_yield)

lemma chunks_rows:
  "concat (map (frames w) (List.map_filter (\<lambda>n. df (node n)) (filter (populated w) xs)))
     = concat (map (node_rows w) (filter (populated w) xs))"
  by (induction xs) (auto simp: populated_def node_rows_def split: option.splits)

lemma chunks_empty:
  "List.map_filter (\<lambda>n. df (node n)) (filter (populated w) xs) = []
     \<longleftrightarrow> filter (populated w) xs = []"
  by (induction xs) (auto simp: populated_def split: option.splits)

lemma node_table_empty:
  "Model_nodes w m = [] \<Longrightarrow> node_table m w = (Inl ValueError, w)"
  by (simp add: node_table_def pd_concat_def)

lemma node_table_result:
  assumes "Model_nodes w m \<noteq> []"
  shows "node_table m w =
    (Inr \<lparr>df = Some (next_frame w)\<rparr>,
     w\<lparr>frames := (frames w)(next_frame w :=
          sort_key node_id (concat (map (node_rows w) (Model_nodes w m)))),
       next_frame := Suc (next_frame w)\<rparr>)"
proof -
  have ne: "List.map_filter (\<lambda>n. df (node n)) (Model_nodes w m) \<noteq> []"
    using assms by (simp add: Model_nodes_filter chunks_empty)
  show ?thesis
    using ne by (simp add: node_table_def pd_concat_def NodeTable_sort_def Let_def
        Model_nodes_filter chunks_rows)
qed

lemma node_table_returns:
  "node_table m w = (Inr t, w') \<Longrightarrow> Model_nodes w m \<noteq> []"
  by (auto simp: node_table_empty)

lemmas example_defs =
  example_model_def example_world_def default_model_def empty_world_def unused_def
  default_settings_def node_fields_def populated_def node_rows_def

lemma example_nodes:
  "Model_nodes example_world example_model =
     [\<lparr>kind = Basin, node = \<lparr>df = Some 0\<rparr>\<rparr>, \<lparr>kind = Pump, node = \<lparr>df = Some 1\<rparr>\<rparr>]"
  by (simp add: Model_nodes_filter example_defs)

lemma example_node_table:
  "node_table example_model example_world =
     (Inr \<lparr>df = Some 3\<rparr>,
      example_world\<lparr>frames := (frames example_world)
          (3 := [\<lparr>node_id = 1, node_type = ''Basin'', node_name = ''b1''\<rparr>,
                 \<lparr>node_id = 2, node_type = ''Pump'', node_name = ''p2''\<rparr>,
                 \<lparr>node_id = 3, node_type = ''Basin'', node_name = ''b3''\<rparr>]),
        next_frame := 4\<rparr>)"
proof -
  have "Model_nodes example_world example_model \<noteq> []"
    by (simp add: example_nodes)
  from node_table_result[OF this] show ?thesis
    by (simp add: example_nodes) (simp add: example_defs)
qed

lemma default_nodes: "Model_nodes w default_model = []"
  by (simp add: Model_nodes_filter default_model_def unused_def node_fields_def populated_def)

text \<open>
  C2 (as the code has it): on a model with no populated sub-model, \<^verbatim>\<open>node_table()\<close>
  does not return a table: \<^verbatim>\<open>pd.concat\<close> of the empty list of chunks raises
  \<^verbatim>\<open>ValueError\<close>, and nothing has changed.
\<close>

theorem node_table_unpopulated_raises:
  "Model_nodes w m = [] \<Longrightarrow> node_table m w = (Inl ValueError, w)"
  by (rule node_table_empty)

theorem node_table_unpopulated_raises_witness:
  "Model_nodes empty_world default_model = []
     \<and> node_table default_model empty_world = (Inl ValueError, empty_world)"
  using node_table_unpopulated_raises[of empty_world default_model] default_nodes[of empty_world]
  by simp

text \<open>
  The claim C2 as the spec states it, that the call returns a table on such a model,
  fails on the default model.
\<close>

theorem node_table_unpopulated_counterexample:
  "\<not> (\<exists>t w'. node_table default_model example_world = (Inr t, w'))"
  by (simp add: node_table_empty default_nodes)

text \<open>
  C3: when \<^verbatim>\<open>node_table()\<close> returns, the rows of the returned table are in ascending
  order of node ID.
\<close>

theorem node_table_sorted:
  "node_table m w = (Inr t, w') \<Longrightarrow>
     (\<exists>a. df t = Some a \<and> sorted (map node_id (frames w' a)))"
  using node_table_result[of w m] node_table_returns[of m w t w'] by auto

theorem node_table_sorted_witness:
  "fst (node_table example_model example_world) = Inr \<lparr>df = Some 3\<rparr>
     \<and> map node_id (frames (snd (node_table example_model example_world)) 3) = [1, 2, 3]
     \<and> sorted (map node_id (frames (snd (node_table example_model example_world)) 3))"
  using node_table_sorted[OF example_node_table] by (simp add: example_node_table)

text \<open>
  C4: \<^verbatim>\<open>_nodes()\<close> yields exactly the node sub-models whose node dataframe is present
  and not empty, in declaration order; and the rows of the table \<^verbatim>\<open>node_table()\<close>
  returns are, up to order, the rows of those sub-models and no others.
\<close>

theorem nodes_exactly_populated:
  "Model_nodes w m =
     filter (\<lambda>s. \<exists>a. df (node s) = Some a \<and> frames w a \<noteq> []) (node_fields m)
   \<and> (\<forall>t w'. node_table m w = (Inr t, w') \<longrightarrow>
        (\<exists>a. df t = Some a \<and>
           mset (frames w' a) =
             mset (concat (map (node_rows w)
               (filter (\<lambda>s. \<exists>a. df (node s) = Some a \<and> frames w a \<noteq> []) (node_fields m))))))"
proof -
  have p: "populated w = (\<lambda>s. \<exists>a. df (node s) = Some a \<and> frames w a \<noteq> [])"
    by (auto simp: populated_def fun_eq_iff split: option.splits)
  have 1: "Model_nodes w m = filter (populated w) (node_fields m)"
    by (rule Model_nodes_filter)
  have 2: "\<exists>a. df t = Some a \<and>
      mset (frames w' a) = mset (concat (map (node_rows w) (filter (populated w) (node_fields m))))"
    if h: "node_table m w = (Inr t, w')" for t w'
  proof -
    have ne: "Model_nodes w m \<noteq> []" using h by (rule node_table_returns)
    from node_table_result[OF ne] h show ?thesis
      by (auto simp: 1)
  qed
  from 1 2 show ?thesis unfolding p by blast
qed

theorem nodes_exactly_populated_witness:
  "Model_nodes example_world example_model = [basin example_model, pump example_model]
     \<and> terminal example_model \<notin> set (Model_nodes example_world example_model)
     \<and> mset (frames (snd (node_table example_model example_world)) 3) =
         mset (frames example_world 0 @ frames example_world 1)"
proof -
  have f: "filter (\<lambda>s. \<exists>a. df (node s) = Some a \<and> frames example_world a \<noteq> [])
             (node_fields example_model) = [basin example_model, pump example_model]"
    by (simp add: example_defs)
  from nodes_exactly_populated[of example_world example_model] example_node_table f
  show ?thesis
    by (simp add: example_defs)
qed

text \<open>
  C10: a call of \<^verbatim>\<open>node_table()\<close> that returns is a pure query. The table it returns
  is a dataframe that did not exist before; every dataframe that existed is unchanged,
  so the node rows of every sub-model of an allocated model are what they were; files
  and context are untouched. (The model itself is a value: the call assigns no attribute.)
\<close>

theorem node_table_pure:
  assumes "node_table m w = (Inr t, w')"
  shows "files w' = files w \<and> context_file_loading w' = context_file_loading w
     \<and> (\<forall>a. a < next_frame w \<longrightarrow> frames w' a = frames w a)
     \<and> df t = Some (next_frame w)
     \<and> (allocated w m \<longrightarrow> (\<forall>s \<in> set (node_fields m). node_rows w' s = node_rows w s))"
proof -
  have ne: "Model_nodes w m \<noteq> []" using assms by (rule node_table_returns)
  note r = node_table_result[OF ne]
  from assms r have t: "t = \<lparr>df = Some (next_frame w)\<rparr>" and
    w': "w' = w\<lparr>frames := (frames w)(next_frame w :=
          sort_key node_id (concat (map (node_rows w) (Model_nodes w m)))),
       next_frame := Suc (next_frame w)\<rparr>" by simp_all
  show ?thesis
    by (auto simp: t w' allocated_def node_rows_def split: option.splits)
qed

theorem node_table_pure_witness:
  "allocated example_world example_model
     \<and> node_rows (snd (node_table example_model example_world)) (basin example_model) =
         [\<lparr>node_id = 3, node_type = ''Basin'', node_name = ''b3''\<rparr>,
          \<lparr>node_id = 1, node_type = ''Basin'', node_name = ''b1''\<rparr>]
     \<and> node_rows (snd (node_table example_model example_world)) (pump example_model) =
         node_rows example_world (pump example_model)
     \<and> files (snd (node_table example_model example_world)) = files example_world"
proof -
  have a: "allocated example_world example_model"
    by (simp add: allocated_def example_defs)
  have b: "basin example_model \<in> set (node_fields example_model)"
    and p: "pump example_model \<in> set (node_fields example_model)"
    by (simp_all add: node_fields_def)
  have r: "node_rows example_world (basin example_model) = 
         [\<lparr>node_id = 3, node_type = ''Basin'', node_name = ''b3''\<rparr>,
          \<lparr>node_id = 1, node_type = ''Basin'', node_name = ''b1''\<rparr>]"
    by (simp add: example_defs)
  from node_table_pure[OF example_node_table] a b p r show ?thesis
    by (simp add: example_node_table)
qed

section \<open>Properties of the unimplemented checks\<close>

text \<open>
  C9: \<^verbatim>\<open>validate_model\<close>, its two sub-checks and \<^verbatim>\<open>plot_control_listen\<close> raise
  \<^verbatim>\<open>NotImplementedError\<close> on every model (and every axes argument).
\<close>

theorem unimplemented_raise:
  "validate_model m = Inl NotImplementedError
     \<and> validate_model_node_field_ids m = Inl NotImplementedError
     \<and> validate_model_node_ids m = Inl NotImplementedError
     \<and> plot_control_listen m ax = Inl NotImplementedError"
  by (simp add: validate_model_def validate_model_node_field_ids_def
      validate_model_node_ids_def plot_control_listen_def)

section \<open>Properties of the file system steps\<close>

lemma then_io_InrE:
  assumes "then_io f g w = (Inr y, w')"
  obtains x w1 where "f w = (Inr x, w1)" and "g x w1 = (Inr y, w')"
  using assms by (auto simp: then_io_def split: prod.splits sum.splits)

lemma then_io_Inr: "f w = (Inr x, w1) \<Longrightarrow> then_io f g w = g x w1"
  by (simp add: then_io_def)

lemma then_io_Inl: "f w = (Inl e, w1) \<Longrightarrow> then_io f g w = (Inl e, w1)"
  by (simp add: then_io_def)

lemma mkdir_is_dir_noop: "is_dir w p \<Longrightarrow> mkdir p w = (Inr (), w)"
  by (subst mkdir.simps) (auto simp: os_mkdir_def is_dir_def path_exists_def)

lemma grows_refl: "grows w w"
  by (auto simp: grows_def intro: exI[of _ "files w"])

lemma grows_trans: "grows a b \<Longrightarrow> grows b c \<Longrightarrow> grows a c"
  unfolding grows_def
  apply clarsimp
  subgoal for f g
    apply (rule exI[of _ g])
    apply simp
    apply metis
    done
  done

lemma os_mkdir_grows: "os_mkdir p w = (r, w') \<Longrightarrow> grows w w'"
  by (auto simp: os_mkdir_def grows_def path_exists_def split: if_splits
      intro: exI[of _ "files w"])

lemma mkdir_exist_ok_grows: "mkdir_exist_ok p w = (r, w') \<Longrightarrow> grows w w'"
  by (auto simp: mkdir_exist_ok_def split: prod.splits sum.splits if_splits
      dest: os_mkdir_grows)

lemma mkdir_grows: "mkdir p w = (r, w') \<Longrightarrow> grows w w'"
proof (induction p w arbitrary: r w' rule: mkdir.induct)
  case (1 p w)
  show ?case
  proof (cases "os_mkdir p w")
    case (Pair r1 w1)
    note g1 = os_mkdir_grows[OF Pair]
    show ?thesis
    proof (cases r1)
      case (Inr u)
      with 1(2) Pair g1 show ?thesis by (subst (asm) mkdir.simps) simp
    next
      case (Inl e)
      show ?thesis
      proof (cases "e = FileNotFoundError \<and> parent p \<noteq> p")
        case False
        with 1(2) Pair Inl g1 show ?thesis
          by (subst (asm) mkdir.simps) (auto split: if_splits)
      next
        case True
        obtain r2 w2 where m2: "mkdir (parent p) w1 = (r2, w2)"
          by (cases "mkdir (parent p) w1")
        have g2: "grows w1 w2"
          using "1.IH"[OF Pair[symmetric] Inl _ _ m2] True by simp
        from 1(2) Pair Inl True m2 have
          "(r, w') = (case r2 of Inl e2 \<Rightarrow> (Inl e2, w2) | Inr u \<Rightarrow> mkdir_exist_ok p w2)"
          by (subst (asm) mkdir.simps) (simp split: sum.splits)
        then show ?thesis
          using g1 g2
          by (auto split: sum.splits dest!: mkdir_exist_ok_grows[OF sym] intro: grows_trans)
      qed
    qed
  qed
qed

lemma mkdir_success_is_dir: "mkdir p w = (Inr u, w') \<Longrightarrow> is_dir w' p"
  by (subst (asm) mkdir.simps)
    (auto simp: os_mkdir_def mkdir_exist_ok_def is_dir_def
      split: prod.splits sum.splits if_splits)

lemma grows_fields:
  "grows w w' \<Longrightarrow> context_file_loading w' = context_file_loading w \<and> frames w' = frames w
     \<and> next_frame w' = next_frame w"
  by (auto simp: grows_def)

lemma grows_is_dir: "grows w w' \<Longrightarrow> is_dir w q \<Longrightarrow> is_dir w' q"
  by (auto simp: grows_def is_dir_def) (metis option.distinct(1))

lemma files_upd_triv: "files w p = n \<Longrightarrow> w\<lparr>files := (files w)(p := n)\<rparr> = w"
  by (cases w) (auto simp: fun_upd_idem)

lemma files_upd_triv': "files w p = n \<Longrightarrow> w = w\<lparr>files := (files w)(p := n)\<rparr>"
  by (simp add: files_upd_triv)

lemma at_store_triv: "files w db = n \<Longrightarrow> at_store db n w = w"
  by (simp add: at_store_def files_upd_triv)

lemma at_store_triv': "files w db = n \<Longrightarrow> w = at_store db n w"
  by (simp add: at_store_triv)

lemma unlink_success:
  "unlink p w = (Inr u, w') \<Longrightarrow>
     w' = at_store p None w \<and> parts p \<noteq> [] \<and> files w p \<noteq> Some Dir"
  by (auto simp: unlink_def at_store_def files_upd_triv' split: if_splits option.splits fs_node.splits)

lemma unlink_result:
  "unlink p w = (r, w') \<Longrightarrow> context_file_loading w' = context_file_loading w"
  by (auto simp: unlink_def split: if_splits option.splits fs_node.splits)

lemma unlink_ok:
  "parts p \<noteq> [] \<Longrightarrow> files w p \<noteq> Some Dir \<Longrightarrow> unlink p w = (Inr (), at_store p None w)"
  by (auto simp: unlink_def at_store_def files_upd_triv' split: option.splits fs_node.splits)

lemma at_store_same [simp]: "at_store db (files w db) w = w"
  by (simp add: at_store_triv)

lemma at_store_twice [simp]: "at_store db n (at_store db k w) = at_store db n w"
  by (simp add: at_store_def)

lemma at_store_fields [simp]:
  "context_file_loading (at_store db n w) = context_file_loading w"
  "frames (at_store db n w) = frames w"
  "next_frame (at_store db n w) = next_frame w"
  "files (at_store db n w) db = n"
  "q \<noteq> db \<Longrightarrow> files (at_store db n w) q = files w q"
  by (simp_all add: at_store_def)

lemma same_store_at_store:
  "same_store db w v \<Longrightarrow> same_store db (at_store db n w) (at_store db n v)"
  by (simp add: same_store_def)

lemma write_layer_sim:
  assumes "same_store db w v"
  shows "\<exists>r n. write_layer nm l w = (r, at_store db n w) \<and> write_layer nm l v = (r, at_store db n v)
             \<and> (files w db \<noteq> Some Dir \<longrightarrow> n \<noteq> Some Dir)"
proof (cases "files v db")
  case None
  with assms show ?thesis
    by (auto simp: same_store_def write_layer_def at_store_def)
next
  case (Some node)
  show ?thesis
  proof (cases node)
    case Dir
    with Some assms have "write_layer nm l w = (Inl IsADirectoryError, at_store db (files w db) w)"
      "write_layer nm l v = (Inl IsADirectoryError, at_store db (files w db) v)"
      by (auto simp: same_store_def write_layer_def at_store_triv')
    then show ?thesis by blast
  next
    case (TomlFile c)
    with Some assms show ?thesis
      by (auto simp: same_store_def write_layer_def at_store_def)
  next
    case (GpkgFile ls)
    with Some assms show ?thesis
      by (auto simp: same_store_def write_layer_def at_store_def)
  qed
qed

lemma EdgeTable_save_sim:
  assumes "same_store db w v"
  shows "\<exists>r n. EdgeTable_save e w = (r, at_store db n w) \<and> EdgeTable_save e v = (r, at_store db n v)
             \<and> (files w db \<noteq> Some Dir \<longrightarrow> n \<noteq> Some Dir)"
proof (cases "edge_df e")
  case None
  have "EdgeTable_save e w = (Inr (), at_store db (files w db) w)"
    "EdgeTable_save e v = (Inr (), at_store db (files w db) v)"
    using None assms by (simp_all add: EdgeTable_save_def same_store_def at_store_triv')
  then show ?thesis by blast
next
  case (Some rows)
  then show ?thesis
    using write_layer_sim[OF assms] by (simp add: EdgeTable_save_def)
qed

lemma MultiNodeModel_save_sim:
  assumes "same_store db w v"
  shows "\<exists>r n. MultiNodeModel_save s w = (r, at_store db n w)
             \<and> MultiNodeModel_save s v = (r, at_store db n v)
             \<and> (files w db \<noteq> Some Dir \<longrightarrow> n \<noteq> Some Dir)"
proof (cases "df (node s)")
  case None
  have "MultiNodeModel_save s w = (Inr (), at_store db (files w db) w)"
    "MultiNodeModel_save s v = (Inr (), at_store db (files w db) v)"
    using None assms by (simp_all add: MultiNodeModel_save_def same_store_def at_store_triv')
  then show ?thesis by blast
next
  case (Some a)
  have "frames w = frames v" using assms by (simp add: same_store_def)
  then show ?thesis
    using write_layer_sim[OF assms] Some by (simp add: MultiNodeModel_save_def)
qed

lemma save_each_sim:
  "same_store db w v \<Longrightarrow>
     \<exists>r n. save_each subs w = (r, at_store db n w) \<and> save_each subs v = (r, at_store db n v)
             \<and> (files w db \<noteq> Some Dir \<longrightarrow> n \<noteq> Some Dir)"
proof (induction subs arbitrary: w v)
  case Nil
  have "save_each [] w = (Inr (), at_store db (files w db) w)"
    "save_each [] v = (Inr (), at_store db (files w db) v)"
    using Nil by (simp_all add: same_store_def at_store_triv')
  then show ?case by blast
next
  case (Cons s subs)
  from MultiNodeModel_save_sim[OF Cons.prems, of s] obtain r n where
    1: "MultiNodeModel_save s w = (r, at_store db n w)"
       "MultiNodeModel_save s v = (r, at_store db n v)"
       "files w db \<noteq> Some Dir \<longrightarrow> n \<noteq> Some Dir" by blast
  show ?case
  proof (cases r)
    case (Inl e)
    with 1 show ?thesis by auto
  next
    case (Inr u)
    from Cons.IH[OF same_store_at_store[OF Cons.prems, of n]] obtain r' n' where
      "save_each subs (at_store db n w) = (r', at_store db n' w)"
      "save_each subs (at_store db n v) = (r', at_store db n' v)"
      "n \<noteq> Some Dir \<longrightarrow> n' \<noteq> Some Dir" by auto
    with 1 Inr show ?thesis by auto
  qed
qed

lemma Model_nodes_frames: "frames w = frames v \<Longrightarrow> Model_nodes w m = Model_nodes v m"
proof -
  assume "frames w = frames v"
  then have "populated w = populated v"
    by (intro ext) (simp add: populated_def split: option.splits)
  then show ?thesis by (simp add: Model_nodes_filter)
qed

lemma store_phase_sim:
  assumes "same_store db w v"
  shows "\<exists>r n. store_phase m w = (r, at_store db n w) \<and> store_phase m v = (r, at_store db n v)
             \<and> (files w db \<noteq> Some Dir \<longrightarrow> n \<noteq> Some Dir)"
proof -
  from EdgeTable_save_sim[OF assms, of "edge m"] obtain r n where
    1: "EdgeTable_save (edge m) w = (r, at_store db n w)"
       "EdgeTable_save (edge m) v = (r, at_store db n v)"
       "files w db \<noteq> Some Dir \<longrightarrow> n \<noteq> Some Dir" by blast
  show ?thesis
  proof (cases r)
    case (Inl e)
    with 1 show ?thesis by (auto simp: store_phase_def then_io_def)
  next
    case (Inr u)
    have s: "same_store db (at_store db n w) (at_store db n v)"
      by (rule same_store_at_store[OF assms])
    have fr: "frames (at_store db n w) = frames (at_store db n v)"
      using assms by (simp add: same_store_def)
    from save_each_sim[OF s, of "Model_nodes (at_store db n w) m"] obtain r' n' where
      "save_each (Model_nodes (at_store db n w) m) (at_store db n w) = (r', at_store db n' w)"
      "save_each (Model_nodes (at_store db n w) m) (at_store db n v) = (r', at_store db n' v)"
      "n \<noteq> Some Dir \<longrightarrow> n' \<noteq> Some Dir"
      by auto
    with 1 Inr Model_nodes_frames[OF fr, of m] show ?thesis
      by (auto simp: store_phase_def then_io_def)
  qed
qed

section \<open>Properties of write\<close>

lemma then_io_InrD:
  "then_io f g w = (Inr y, w') \<Longrightarrow> \<exists>x w1. f w = (Inr x, w1) \<and> g x w1 = (Inr y, w')"
  by (auto simp: then_io_def split: prod.splits sum.splits)

lemma Model_save_store_phase:
  "Model_save m directory i =
     then_io (mkdir (parent (joinpath (joinpath directory i) (Path False [''database.gpkg'']))))
       (\<lambda>_. then_io (unlink (joinpath (joinpath directory i) (Path False [''database.gpkg''])))
       (\<lambda>_. then_io (\<lambda>w. (Inr (), w\<lparr>context_file_loading := (context_file_loading w)
            (''database'' \<mapsto> joinpath (joinpath directory i) (Path False [''database.gpkg'']))\<rparr>))
       (\<lambda>_. store_phase m)))"
  by (simp add: Model_save_def store_phase_def Let_def)

lemma name_store_path: "name (store_path m fp) = ''database.gpkg''"
  by (simp add: store_path_def joinpath_def name_def)

lemma parts_store_path: "parts (store_path m fp) \<noteq> []"
  by (simp add: store_path_def joinpath_def)

lemma suffix_store_path: "suffix (store_path m fp) = ''.gpkg''"
  by (simp add: suffix_def name_store_path)

lemma store_path_neq: "suffix fp = ''.toml'' \<Longrightarrow> store_path m fp \<noteq> fp"
  using suffix_store_path[of m fp] by auto

lemma suffix_parts: "suffix fp \<noteq> [] \<Longrightarrow> parts fp \<noteq> []"
  by (auto simp: suffix_def name_def)

lemma parent_neq: "parts fp \<noteq> [] \<Longrightarrow> parent fp \<noteq> fp"
proof
  assume a: "parts fp \<noteq> []" and b: "parent fp = fp"
  from b have "parts (parent fp) = parts fp" by simp
  then have "butlast (parts fp) = parts fp" by (simp add: parent_def)
  then have "length (butlast (parts fp)) = length (parts fp)" by simp
  then have "length (parts fp) - 1 = length (parts fp)" by (simp only: length_butlast)
  with a show False by (cases "parts fp") simp_all
qed

text \<open>The steps of a write that returns.\<close>

lemma Model_write_returns:
  assumes "Model_write ser m fp w = (Inr fn, w')"
  obtains wa wb wf where
    "suffix fp = ''.toml''"
    "mkdir (parent fp) (w\<lparr>context_file_loading := Map.empty\<rparr>) = (Inr (), wa)"
    "mkdir (parent (store_path m fp)) wa = (Inr (), wb)"
    "unlink (store_path m fp) wb = (Inr (), at_store (store_path m fp) None wb)"
    "store_phase m (at_store (store_path m fp) None wb
        \<lparr>context_file_loading := [''database'' \<mapsto> store_path m fp]\<rparr>) = (Inr (), wf)"
    "tomli_w_dump fp (toml_content ser m) wf = (Inr (), at_store fp (Some (TomlFile (toml_content ser m))) wf)"
    "fn = fp"
    "w' = at_store fp (Some (TomlFile (toml_content ser m))) wf\<lparr>context_file_loading := Map.empty\<rparr>"
proof -
  have sfx: "suffix fp = ''.toml''"
    using assms by (auto simp: Model_write_def split: if_splits)
  from assms sfx have
    "then_io context_set_empty (\<lambda>_. then_io (mkdir (parent fp))
       (\<lambda>_. then_io (Model_save m (parent fp) (input_dir m))
       (\<lambda>_. then_io (Model_write_toml ser m fp)
       (\<lambda>fn. then_io context_set_empty (\<lambda>_ w. (Inr fn, w)))))) w = (Inr fn, w')"
    by (simp add: Model_write_def Let_def)
  then obtain w0 u1 where
    0: "context_set_empty w = (Inr u1, w0)" and
    1: "then_io (mkdir (parent fp))
       (\<lambda>_. then_io (Model_save m (parent fp) (input_dir m))
       (\<lambda>_. then_io (Model_write_toml ser m fp)
       (\<lambda>fn. then_io context_set_empty (\<lambda>_ w. (Inr fn, w))))) w0 = (Inr fn, w')"
    by (blast dest: then_io_InrD)
  from 0 have w0: "w0 = w\<lparr>context_file_loading := Map.empty\<rparr>"
    by (simp add: context_set_empty_def)
  from 1 obtain wa u2 where
    a: "mkdir (parent fp) w0 = (Inr u2, wa)" and
    2: "then_io (Model_save m (parent fp) (input_dir m))
       (\<lambda>_. then_io (Model_write_toml ser m fp)
       (\<lambda>fn. then_io context_set_empty (\<lambda>_ w. (Inr fn, w)))) wa = (Inr fn, w')"
    by (blast dest: then_io_InrD)
  from 2 obtain wf u3 where
    s: "Model_save m (parent fp) (input_dir m) wa = (Inr u3, wf)" and
    3: "then_io (Model_write_toml ser m fp)
       (\<lambda>fn. then_io context_set_empty (\<lambda>_ w. (Inr fn, w))) wf = (Inr fn, w')"
    by (blast dest: then_io_InrD)
  from 3 obtain wg fn' where
    t: "Model_write_toml ser m fp wf = (Inr fn', wg)" and
    4: "then_io context_set_empty (\<lambda>_ w. (Inr fn', w)) wg = (Inr fn, w')"
    by (blast dest: then_io_InrD)
  from 4 have fn: "fn = fn'" and w': "w' = wg\<lparr>context_file_loading := Map.empty\<rparr>"
    by (auto simp: then_io_def context_set_empty_def)
  from t obtain u4 where
    d: "tomli_w_dump fp (toml_content ser m) wf = (Inr u4, wg)" and fn': "fn' = fp"
    by (auto simp: Model_write_toml_def dest!: then_io_InrD)
  from d have wg: "wg = at_store fp (Some (TomlFile (toml_content ser m))) wf"
    by (auto simp: tomli_w_dump_def at_store_def split: if_splits)
  from s obtain wb wc u5 u6 where
    b: "mkdir (parent (store_path m fp)) wa = (Inr u5, wb)" and
    c: "unlink (store_path m fp) wb = (Inr u6, wc)" and
    p: "store_phase m (wc\<lparr>context_file_loading := (context_file_loading wc)
          (''database'' \<mapsto> store_path m fp)\<rparr>) = (Inr u3, wf)"
    unfolding Model_save_store_phase store_path_def[symmetric]
    by (auto dest!: then_io_InrD)
  from unlink_success[OF c] have wc: "wc = at_store (store_path m fp) None wb" by simp
  have ctx: "context_file_loading wc = Map.empty"
    using grows_fields[OF mkdir_grows[OF a]] grows_fields[OF mkdir_grows[OF b]] wc w0
    by simp
  show ?thesis
    using that[OF sfx, of wa wb wf] a b c p d w0 wc ctx wg fn fn' w' by simp
qed

section \<open>Writing twice\<close>

lemma is_dir_files: "files w = files v \<Longrightarrow> is_dir w q = is_dir v q"
  by (simp add: is_dir_def)

lemma at_store_is_dir:
  "is_dir w q \<Longrightarrow> \<not> is_dir w db \<Longrightarrow> is_dir (at_store db n w) q"
  by (cases "q = db") (auto simp: is_dir_def at_store_def)

lemma tomli_w_dump_success:
  "tomli_w_dump fp c w = (Inr u, w') \<Longrightarrow> \<not> is_dir w fp \<and> is_dir w (parent fp)"
  by (auto simp: tomli_w_dump_def split: if_splits)

lemma tomli_w_dump_again:
  assumes "files w fp = Some (TomlFile c)" "parts fp \<noteq> []" "is_dir w (parent fp)"
  shows "tomli_w_dump fp c w = (Inr (), w)"
proof -
  have "\<not> is_dir w fp" using assms by (simp add: is_dir_def)
  moreover have "path_exists w (parent fp)"
    using assms(3) by (auto simp: is_dir_def path_exists_def)
  ultimately show ?thesis
    using assms by (simp add: tomli_w_dump_def files_upd_triv)
qed

lemma same_store_refl:
  "context_file_loading w ''database'' = Some db \<Longrightarrow> same_store db w w"
  by (simp add: same_store_def)

lemma write_again:
  assumes "Model_write ser m fp w = (Inr fn, w1)"
  shows "Model_write ser m fp w1 = (Inr fn, w1)"
proof -
  define db where "db = store_path m fp"
  define T where "T = Some (TomlFile (toml_content ser m))"
  from assms obtain wa wb wf where
    sfx: "suffix fp = ''.toml''" and
    a: "mkdir (parent fp) (w\<lparr>context_file_loading := Map.empty\<rparr>) = (Inr (), wa)" and
    b: "mkdir (parent db) wa = (Inr (), wb)" and
    c: "unlink db wb = (Inr (), at_store db None wb)" and
    p: "store_phase m (at_store db None wb\<lparr>context_file_loading := [''database'' \<mapsto> db]\<rparr>)
          = (Inr (), wf)" and
    d: "tomli_w_dump fp (toml_content ser m) wf = (Inr (), at_store fp T wf)" and
    fn: "fn = fp" and
    w1: "w1 = at_store fp T wf\<lparr>context_file_loading := Map.empty\<rparr>"
    unfolding db_def T_def by (rule Model_write_returns)
  define wd where "wd = at_store db None wb\<lparr>context_file_loading := [''database'' \<mapsto> db]\<rparr>"
  define vd where "vd = at_store db None w1\<lparr>context_file_loading := [''database'' \<mapsto> db]\<rparr>"
  have pfp: "parts fp \<noteq> []" using sfx suffix_parts[of fp] by simp
  have pdb: "parts db \<noteq> []" by (simp add: db_def parts_store_path)
  have neq: "db \<noteq> fp" unfolding db_def by (rule store_path_neq[OF sfx])
  \<comment> \<open>the store after the first write\<close>
  have sdd: "same_store db wd wd"
    by (rule same_store_refl) (simp add: wd_def)
  from store_phase_sim[OF sdd, of m] p obtain n where
    wf: "wf = at_store db n wd" and nd: "n \<noteq> Some Dir"
    by (auto simp: wd_def)
  have fr: "frames w1 = frames wd" by (simp add: w1 wf)
  have f1: "files w1 db = n" using neq by (simp add: w1 wf)
  have f1fp: "files w1 fp = T" by (simp add: w1)
  have c1: "context_file_loading w1 = Map.empty" by (simp add: w1)
  \<comment> \<open>directories made by the first write are still there\<close>
  have ndb: "\<not> is_dir wb db"
    using unlink_success[OF c] by (auto simp: is_dir_def)
  have ndd: "\<not> is_dir wd db"
    using pdb by (simp add: wd_def is_dir_def)
  have nfp: "\<not> is_dir wf fp" and dpar: "is_dir wf (parent fp)"
    using tomli_w_dump_success[OF d] by simp_all
  have keep: "is_dir w1 q" if "is_dir wb q" for q
  proof -
    have "is_dir (at_store db None wb) q" using that ndb by (rule at_store_is_dir)
    then have "is_dir wd q" by (simp add: wd_def is_dir_def)
    then have "is_dir wf q" unfolding wf using ndd by (rule at_store_is_dir)
    then have "is_dir (at_store fp T wf) q" using nfp by (rule at_store_is_dir)
    then show ?thesis by (simp add: w1 is_dir_def)
  qed
  have "is_dir wa (parent fp)" using a by (rule mkdir_success_is_dir)
  then have "is_dir wb (parent fp)" using mkdir_grows[OF b] by (rule grows_is_dir[rotated])
  then have d1: "is_dir w1 (parent fp)" by (rule keep)
  have "is_dir wb (parent db)" using b by (rule mkdir_success_is_dir)
  then have d2: "is_dir w1 (parent db)" by (rule keep)
  \<comment> \<open>the second write, step by step\<close>
  have s0: "context_set_empty w1 = (Inr (), w1)"
    by (simp add: context_set_empty_def w1)
  have s1: "mkdir (parent fp) w1 = (Inr (), w1)"
    using d1 by (rule mkdir_is_dir_noop)
  have s2: "mkdir (parent db) w1 = (Inr (), w1)"
    using d2 by (rule mkdir_is_dir_noop)
  have s3: "unlink db w1 = (Inr (), at_store db None w1)"
    using pdb nd f1 by (intro unlink_ok) simp_all
  have sim: "same_store db wd vd"
    using fr by (simp add: same_store_def wd_def vd_def)
  from store_phase_sim[OF sim, of m] p obtain n' where
    "at_store db n' wd = wf" and s4: "store_phase m vd = (Inr (), at_store db n' vd)"
    by (auto simp: wd_def)
  then have "n' = n"
    using wf by (metis at_store_fields(4))
  have vf: "at_store db n' vd = w1\<lparr>context_file_loading := [''database'' \<mapsto> db]\<rparr>"
  proof -
    have "(files w1)(db := n) = files w1" using f1 by (simp add: fun_upd_idem)
    then show ?thesis using \<open>n' = n\<close> by (simp add: vd_def at_store_def)
  qed
  have s5: "tomli_w_dump fp (toml_content ser m)
              (w1\<lparr>context_file_loading := [''database'' \<mapsto> db]\<rparr>)
            = (Inr (), w1\<lparr>context_file_loading := [''database'' \<mapsto> db]\<rparr>)"
    using f1fp pfp d1 by (intro tomli_w_dump_again) (simp_all add: T_def is_dir_def)
  have save: "Model_save m (parent fp) (input_dir m) w1
                = (Inr (), w1\<lparr>context_file_loading := [''database'' \<mapsto> db]\<rparr>)"
    unfolding Model_save_store_phase store_path_def[symmetric] db_def[symmetric]
    using s2 s3 s4 vf c1 by (simp add: then_io_def vd_def)
  have fin: "w1\<lparr>context_file_loading := Map.empty\<rparr> = w1" by (simp add: w1)
  show ?thesis
    using sfx s0 s1 save s5 fin
    by (simp add: Model_write_def Model_write_toml_def then_io_def fn context_set_empty_def
        Let_def)
qed

section \<open>Properties of the dumped configuration\<close>

lemma set_map_filter: "set (List.map_filter f xs) = {y. \<exists>x\<in>set xs. f x = Some y}"
  by (induction xs) (auto split: option.splits)

lemma fields_all: "f \<in> set model_fields_keys"
  by (cases f) (simp_all add: model_fields_keys_def)

lemma distinct_aliases: "distinct (map field_alias model_fields_keys)"
  by (simp add: model_fields_keys_def)

lemma inj_field_alias: "field_alias f = field_alias g \<Longrightarrow> f = g"
  using distinct_aliases fields_all[of f] fields_all[of g]
  by (simp add: distinct_map inj_on_def)

lemma alias_not_version: "field_alias f \<noteq> ''ribasim_version''"
  by (cases f) simp_all

lemma in_model_dump:
  "(k, v) \<in> set (model_dump ser m) \<longleftrightarrow>
     (\<exists>f. f \<in> model_fields_set m \<and> k = field_alias f \<and> dump_value ser (getattr m f) = Some v)"
  by (auto simp: model_dump_def set_map_filter fields_all split: if_splits)

lemma keys_map_filter:
  "map fst (List.map_filter (\<lambda>k. if P k then map_option (Pair (a k)) (g k) else None) ks) =
     map a (filter (\<lambda>k. P k \<and> g k \<noteq> None) ks)"
  by (induction ks) auto

lemma distinct_model_dump: "distinct (map fst (model_dump ser m))"
  unfolding model_dump_def keys_map_filter
  by (rule distinct_map_filter) (rule distinct_aliases)

lemma update_absent: "k \<notin> fst ` set al \<Longrightarrow> AList.update k v al = al @ [(k, v)]"
  by (induction al) auto

lemma toml_content_eq:
  "toml_content ser m =
     filter (\<lambda>x. truthy (snd x)) (model_dump ser m) @ [(''ribasim_version'', TStr ribasim_version)]"
proof -
  have "''ribasim_version'' \<notin> fst ` set (filter (\<lambda>x. truthy (snd x)) (model_dump ser m))"
    using alias_not_version by (fastforce simp: in_model_dump)
  then show ?thesis
    by (simp add: toml_content_def Let_def update_absent)
qed

lemma in_toml_content:
  "(k, v) \<in> set (toml_content ser m) \<longleftrightarrow>
     (k = ''ribasim_version'' \<and> v = TStr ribasim_version) \<or>
     (truthy v \<and> (\<exists>f. f \<in> model_fields_set m \<and> k = field_alias f
                      \<and> dump_value ser (getattr m f) = Some v))"
  by (auto simp: toml_content_eq in_model_dump)

lemma distinct_toml_content: "distinct (map fst (toml_content ser m))"
  unfolding toml_content_def Let_def
  by (intro distinct_update distinct_map_filter distinct_model_dump)

lemma in_dump_settings:
  "(k, v) \<in> set (dump_settings g) \<longleftrightarrow> k \<in> fields_set g \<and> (k, Some v) \<in> set (entries g)"
  by (force simp: dump_settings_def set_map_filter split: if_splits)

lemma join_sep_nonempty: "xs \<noteq> [] \<Longrightarrow> [] \<notin> set xs \<Longrightarrow> join_sep xs \<noteq> []"
  by (induction xs rule: join_sep.induct) auto

lemma serialize_path_nonempty: "path_ok p \<Longrightarrow> serialize_path p \<noteq> []"
  by (auto simp: serialize_path_def path_ok_def dest!: join_sep_nonempty[rotated])

lemma getattr_post_init [simp]: "getattr (model_post_init m) f = getattr m f"
  by (cases f) (simp_all add: model_post_init_def)

text \<open>
  C7: when a write of a constructed model (one \<^verbatim>\<open>model_post_init\<close> has run on)
  returns, the file at the returned path holds a dict with distinct keys in which
  \<^verbatim>\<open>input_dir\<close> and \<^verbatim>\<open>results_dir\<close> are the strings of the two paths and
  \<^verbatim>\<open>ribasim_version\<close> is the version string; no field that was never set and no field
  dumped as none has a key; and a settings table holds only entries that were set and
  are not none.
\<close>

theorem write_toml_sparse:
  assumes "Model_write ser (model_post_init m) fp w = (Inr fn, w')"
      and "path_ok (input_dir m)" and "path_ok (results_dir m)"
  shows "\<exists>content. files w' fn = Some (TomlFile content)
     \<and> distinct (map fst content)
     \<and> (''input_dir'', TStr (serialize_path (input_dir m))) \<in> set content
     \<and> (''results_dir'', TStr (serialize_path (results_dir m))) \<in> set content
     \<and> (''ribasim_version'', TStr ribasim_version) \<in> set content
     \<and> (\<forall>f. f \<notin> model_fields_set (model_post_init m) \<longrightarrow> field_alias f \<notin> fst ` set content)
     \<and> (\<forall>f. dump_value ser (getattr m f) = None \<longrightarrow> field_alias f \<notin> fst ` set content)
     \<and> (\<forall>f g t k v. getattr m f = VSettings g \<longrightarrow> (field_alias f, TTable t) \<in> set content
           \<longrightarrow> (k, v) \<in> set t \<longrightarrow> k \<in> fields_set g \<and> (k, Some v) \<in> set (entries g))"
proof -
  let ?m = "model_post_init m"
  let ?c = "toml_content ser ?m"
  from assms(1) obtain wf where
    fn: "fn = fp" and
    w': "w' = at_store fp (Some (TomlFile ?c)) wf\<lparr>context_file_loading := Map.empty\<rparr>"
    by (rule Model_write_returns)
  have 1: "files w' fn = Some (TomlFile ?c)" by (simp add: fn w')
  have 2: "distinct (map fst ?c)" by (rule distinct_toml_content)
  have 3: "(''input_dir'', TStr (serialize_path (input_dir m))) \<in> set ?c"
    using serialize_path_nonempty[OF assms(2)]
    by (auto simp: in_toml_content model_post_init_def intro!: exI[of _ F_input_dir])
  have 4: "(''results_dir'', TStr (serialize_path (results_dir m))) \<in> set ?c"
    using serialize_path_nonempty[OF assms(3)]
    by (auto simp: in_toml_content model_post_init_def intro!: exI[of _ F_results_dir])
  have 5: "(''ribasim_version'', TStr ribasim_version) \<in> set ?c"
    by (simp add: in_toml_content)
  have 6: "field_alias f \<notin> fst ` set ?c" if "f \<notin> model_fields_set ?m" for f
    using that by (auto simp: in_toml_content alias_not_version dest: inj_field_alias)
  have 7: "field_alias f \<notin> fst ` set ?c" if "dump_value ser (getattr m f) = None" for f
    using that by (auto simp: in_toml_content alias_not_version dest!: inj_field_alias)
  have 8: "k \<in> fields_set g \<and> (k, Some v) \<in> set (entries g)"
    if "getattr m f = VSettings g" "(field_alias f, TTable t) \<in> set ?c" "(k, v) \<in> set t"
    for f g t k v
  proof -
    from that(2) obtain f' where "field_alias f = field_alias f'"
      "dump_value ser (getattr m f') = Some (TTable t)"
      by (auto simp: in_toml_content alias_not_version)
    then have "dump_value ser (getattr m f) = Some (TTable t)"
      by (auto dest: inj_field_alias)
    with that(1) have "t = dump_settings g" by simp
    with that(3) show ?thesis by (simp add: in_dump_settings)
  qed
  from 1 2 3 4 5 6 7 8 show ?thesis by blast
qed

section \<open>Properties of the context\<close>

lemma mkdir_context: "context_file_loading (snd (mkdir p w)) = context_file_loading w"
  using mkdir_grows[of p w "fst (mkdir p w)" "snd (mkdir p w)"] grows_fields by simp

lemma unlink_context: "context_file_loading (snd (unlink p w)) = context_file_loading w"
  using unlink_result[of p w "fst (unlink p w)" "snd (unlink p w)"] by simp

lemma store_phase_context:
  assumes "context_file_loading w ''database'' = Some db"
  shows "context_file_loading (snd (store_phase m w)) = context_file_loading w"
  using store_phase_sim[OF same_store_refl[OF assms], of m] by auto

lemma tomli_w_dump_context:
  "context_file_loading (snd (tomli_w_dump fp c w)) = context_file_loading w"
  by (simp add: tomli_w_dump_def)

lemma Model_save_context:
  assumes "context_file_loading w = Map.empty"
  shows "context_file_loading (snd (Model_save m (parent fp) (input_dir m) w))
           = (if \<exists>wb wc. mkdir (parent (store_path m fp)) w = (Inr (), wb)
                          \<and> unlink (store_path m fp) wb = (Inr (), wc)
              then [''database'' \<mapsto> store_path m fp] else Map.empty)"
proof -
  define db where "db = store_path m fp"
  obtain r1 wb where 1: "mkdir (parent db) w = (r1, wb)" by (cases "mkdir (parent db) w")
  obtain r2 wc where 2: "unlink db wb = (r2, wc)" by (cases "unlink db wb")
  have cb: "context_file_loading wb = Map.empty"
    using mkdir_context[of "parent db" w] 1 assms by simp
  have cc: "context_file_loading wc = Map.empty"
    using unlink_context[of db wb] 2 cb by simp
  have cd: "context_file_loading (snd (store_phase m
               (wc\<lparr>context_file_loading := [''database'' \<mapsto> db]\<rparr>))) = [''database'' \<mapsto> db]"
    by (subst store_phase_context[of _ db]) simp_all
  show ?thesis
    unfolding Model_save_store_phase store_path_def[symmetric] db_def[symmetric]
    using 1 2 cb cc cd
    by (cases r1; cases r2) (auto simp: then_io_def)
qed

lemma Model_write_context:
  assumes "suffix fp = ''.toml''"
  shows "context_file_loading (snd (Model_write ser m fp w)) = Map.empty
       \<or> context_file_loading (snd (Model_write ser m fp w)) = [''database'' \<mapsto> store_path m fp]"
proof -
  define w0 where "w0 = w\<lparr>context_file_loading := Map.empty\<rparr>"
  obtain r1 wa where 1: "mkdir (parent fp) w0 = (r1, wa)" by (cases "mkdir (parent fp) w0")
  have ca: "context_file_loading wa = Map.empty"
    using mkdir_context[of "parent fp" w0] 1 by (simp add: w0_def)
  obtain r2 wf where 2: "Model_save m (parent fp) (input_dir m) wa = (r2, wf)"
    by (cases "Model_save m (parent fp) (input_dir m) wa")
  have cf: "context_file_loading wf = Map.empty
          \<or> context_file_loading wf = [''database'' \<mapsto> store_path m fp]"
    using Model_save_context[OF ca, of m fp] 2 by (auto split: if_splits)
  obtain r3 wg where 3: "tomli_w_dump fp (toml_content ser m) wf = (r3, wg)"
    by (cases "tomli_w_dump fp (toml_content ser m) wf")
  have cg: "context_file_loading wg = context_file_loading wf"
    using tomli_w_dump_context[of fp "toml_content ser m" wf] 3 by simp
  show ?thesis
    using assms 1 2 3 ca cf cg
    by (cases r1; cases r2; cases r3)
      (auto simp: Model_write_def Model_write_toml_def then_io_def Let_def
        context_set_empty_def w0_def[symmetric])
qed

lemma Model_write_returns_context:
  "Model_write ser m fp w = (Inr fn, w') \<Longrightarrow> context_file_loading w' = Map.empty"
  by (erule Model_write_returns) simp

lemma Model_load_Some:
  "Model_load (Some fp) w =
     (case tomli_load fp (w\<lparr>context_file_loading := Map.empty\<rparr>) of
        (Inl e, w1) \<Rightarrow> (Inl e, w1)
      | (Inr config, w1) \<Rightarrow>
          (case load_directory fp config of
             Inl e \<Rightarrow> (Inl e, w1)
           | Inr directory \<Rightarrow>
               (Inr config, w1\<lparr>context_file_loading := (context_file_loading w1)
                  (''directory'' \<mapsto> directory,
                   ''database'' \<mapsto> joinpath directory (Path False [''database.gpkg'']))\<rparr>)))"
  by (simp add: Model_load_def then_io_def context_set_empty_def split: prod.splits sum.splits)

lemma tomli_load_world: "snd (tomli_load fp w) = w"
  by (simp add: tomli_load_def split: option.splits fs_node.splits)

text \<open>
  C6 (as the code has it): \<^verbatim>\<open>write\<close> empties the context after its extension check
  and again just before it returns, so a write that returns leaves the context empty;
  whatever way a write with a \<^verbatim>\<open>.toml\<close> path ends, the context is then empty or holds
  exactly the store path under \<^verbatim>\<open>"database"\<close>. \<^verbatim>\<open>_load\<close> empties the context at its
  start; given a file it leaves exactly \<^verbatim>\<open>"directory"\<close> and \<^verbatim>\<open>"database"\<close> set when
  it returns, and an empty context when it raises; \<^verbatim>\<open>reset_contextvar\<close> empties it.
  Nothing clears the context when a step raises after the store path was recorded.
\<close>

theorem context_state_machine:
  "(\<forall>fn w'. Model_write ser m fp w = (Inr fn, w') \<longrightarrow> context_file_loading w' = Map.empty)
   \<and> (suffix fp = ''.toml'' \<longrightarrow>
        context_file_loading (snd (Model_write ser m fp w)) = Map.empty
        \<or> context_file_loading (snd (Model_write ser m fp w)) = [''database'' \<mapsto> store_path m fp])
   \<and> Model_load None w = (Inr [], w\<lparr>context_file_loading := Map.empty\<rparr>)
   \<and> (\<forall>config w'. Model_load (Some fp) w = (Inr config, w') \<longrightarrow>
        (\<exists>directory. load_directory fp config = Inr directory
           \<and> w' = w\<lparr>context_file_loading :=
                 [''directory'' \<mapsto> directory,
                  ''database'' \<mapsto> joinpath directory (Path False [''database.gpkg''])]\<rparr>))
   \<and> (\<forall>e w'. Model_load (Some fp) w = (Inl e, w') \<longrightarrow>
        w' = w\<lparr>context_file_loading := Map.empty\<rparr>)
   \<and> reset_contextvar m w = (Inr m, w\<lparr>context_file_loading := Map.empty\<rparr>)"
proof -
  obtain r w1 where t: "tomli_load fp (w\<lparr>context_file_loading := Map.empty\<rparr>) = (r, w1)"
    by (cases "tomli_load fp (w\<lparr>context_file_loading := Map.empty\<rparr>)")
  have w1: "w1 = w\<lparr>context_file_loading := Map.empty\<rparr>"
    using tomli_load_world[of fp "w\<lparr>context_file_loading := Map.empty\<rparr>"] t by simp
  have 4: "\<exists>directory. load_directory fp config = Inr directory
           \<and> w' = w\<lparr>context_file_loading :=
                 [''directory'' \<mapsto> directory,
                  ''database'' \<mapsto> joinpath directory (Path False [''database.gpkg''])]\<rparr>"
    if "Model_load (Some fp) w = (Inr config, w')" for config w'
    using that t w1 by (auto simp: Model_load_Some split: sum.splits)
  have 5: "w' = w\<lparr>context_file_loading := Map.empty\<rparr>"
    if "Model_load (Some fp) w = (Inl e, w')" for e w'
    using that t w1 by (auto simp: Model_load_Some split: sum.splits)
  have 1: "context_file_loading w' = Map.empty"
    if "Model_write ser m fp w = (Inr fn, w')" for fn w'
    using that by (rule Model_write_returns_context)
  have 2: "context_file_loading (snd (Model_write ser m fp w)) = Map.empty
        \<or> context_file_loading (snd (Model_write ser m fp w)) = [''database'' \<mapsto> store_path m fp]"
    if "suffix fp = ''.toml''"
    using that by (rule Model_write_context)
  have 3: "Model_load None w = (Inr [], w\<lparr>context_file_loading := Map.empty\<rparr>)"
    by (simp add: Model_load_def then_io_def context_set_empty_def)
  have 6: "reset_contextvar m w = (Inr m, w\<lparr>context_file_loading := Map.empty\<rparr>)"
    by (simp add: reset_contextvar_def then_io_def context_set_empty_def)
  from 1 2 3 4 5 6 show ?thesis by blast
qed

section \<open>Properties of write on the example\<close>

lemma example_write_returns:
  "fst (Model_write no_serializer example_model model_toml example_world) = Inr model_toml"
  by code_simp

lemma example_write:
  "Model_write no_serializer example_model model_toml example_world =
     (Inr model_toml, snd (Model_write no_serializer example_model model_toml example_world))"
  using example_write_returns by (simp add: prod_eq_iff)

lemma example_post_init: "model_post_init example_model = example_model"
  by (simp add: model_post_init_def example_model_def insert_commute)

text \<open>
  C5: a \<^verbatim>\<open>write\<close> to a path whose suffix is not \<^verbatim>\<open>.toml\<close> raises \<^verbatim>\<open>ValueError\<close>,
  and the world is what it was: no file, no directory, no context entry, no dataframe has
  changed.
\<close>

theorem write_rejects_extension:
  "suffix filepath \<noteq> ''.toml'' \<Longrightarrow> Model_write ser m filepath w = (Inl ValueError, w)"
  by (simp add: Model_write_def)

theorem write_rejects_extension_witness:
  "suffix model_csv = ''.csv''
     \<and> Model_write no_serializer example_model model_csv example_world
         = (Inl ValueError, example_world)"
proof -
  have s: "suffix model_csv = ''.csv''" by code_simp
  then have "suffix model_csv \<noteq> ''.toml''" by simp
  from write_rejects_extension[OF this] s show ?thesis by simp
qed

text \<open>
  The claim C6 as the spec states it, that the context is empty again on every exit
  path, fails when \<^verbatim>\<open>model/model.toml\<close> is a directory: \<^verbatim>\<open>_save\<close> records the
  store path, \<^verbatim>\<open>open(fn, "wb")\<close> raises, and the context still holds the store path.
\<close>

theorem context_left_set_counterexample:
  "context_file_loading blocked_world ''database'' = None
     \<and> fst (Model_write no_serializer example_model model_toml blocked_world)
         = Inl IsADirectoryError
     \<and> context_file_loading
          (snd (Model_write no_serializer example_model model_toml blocked_world)) ''database''
         = Some (Path False [''model'', ''database.gpkg''])"
  by code_simp

theorem context_state_machine_witness:
  "fst (Model_write no_serializer example_model model_toml example_world) = Inr model_toml
     \<and> context_file_loading
          (snd (Model_write no_serializer example_model model_toml example_world)) = Map.empty
     \<and> suffix model_toml = ''.toml''
     \<and> fst (Model_load (Some model_toml)
          (snd (Model_write no_serializer example_model model_toml example_world)))
         = Inr (toml_content no_serializer example_model)
     \<and> context_file_loading (snd (Model_load (Some model_toml)
          (snd (Model_write no_serializer example_model model_toml example_world))))
         = [''directory'' \<mapsto> Path False [''model''],
            ''database'' \<mapsto> Path False [''model'', ''database.gpkg'']]"
proof -
  let ?w1 = "snd (Model_write no_serializer example_model model_toml example_world)"
  note sm = context_state_machine[of no_serializer example_model model_toml example_world]
  have c: "context_file_loading ?w1 = Map.empty"
    using sm example_write by blast
  have s: "suffix model_toml = ''.toml''" by code_simp
  have l: "fst (Model_load (Some model_toml) ?w1) = Inr (toml_content no_serializer example_model)"
    by code_simp
  have d: "load_directory model_toml (toml_content no_serializer example_model)
             = Inr (Path False [''model''])"
    by code_simp
  have j: "joinpath (Path False [''model'']) (Path False [''database.gpkg''])
             = Path False [''model'', ''database.gpkg'']"
    by (simp add: joinpath_def)
  note sm2 = context_state_machine[of no_serializer example_model model_toml ?w1]
  have "Model_load (Some model_toml) ?w1
          = (Inr (toml_content no_serializer example_model), snd (Model_load (Some model_toml) ?w1))"
    using l by (simp add: prod_eq_iff)
  with sm2 obtain directory where
    "load_directory model_toml (toml_content no_serializer example_model) = Inr directory"
    "snd (Model_load (Some model_toml) ?w1) = ?w1\<lparr>context_file_loading :=
        [''directory'' \<mapsto> directory,
         ''database'' \<mapsto> joinpath directory (Path False [''database.gpkg''])]\<rparr>"
    by blast
  with d j have "context_file_loading (snd (Model_load (Some model_toml) ?w1)) =
      [''directory'' \<mapsto> Path False [''model''],
       ''database'' \<mapsto> Path False [''model'', ''database.gpkg'']]"
    by simp
  with example_write_returns c s l show ?thesis by simp
qed

text \<open>
  C8: when a write returns, writing the same model (same field values, same
  dataframes, same version) to the same path again returns the same path and leaves
  the world exactly as the first write left it: the configuration file holds the same
  dict, and the store the same layers.
\<close>

theorem write_twice_same:
  assumes "Model_write ser m fp w = (Inr fn, w1)"
  shows "Model_write ser m fp w1 = (Inr fn, w1)
     \<and> files w1 fn = Some (TomlFile (toml_content ser m))"
proof -
  from assms obtain wf where
    "fn = fp"
    "w1 = at_store fp (Some (TomlFile (toml_content ser m))) wf\<lparr>context_file_loading := Map.empty\<rparr>"
    by (rule Model_write_returns)
  then have "files w1 fn = Some (TomlFile (toml_content ser m))" by simp
  with write_again[OF assms] show ?thesis by simp
qed

theorem write_twice_same_witness:
  "fst (Model_write no_serializer example_model model_toml example_world) = Inr model_toml
     \<and> Model_write no_serializer example_model model_toml
          (snd (Model_write no_serializer example_model model_toml example_world))
         = (Inr model_toml, snd (Model_write no_serializer example_model model_toml example_world))"
  using write_twice_same[OF example_write] example_write_returns by simp

theorem write_toml_sparse_witness:
  "path_ok (input_dir example_model) \<and> path_ok (results_dir example_model)
     \<and> fst (Model_write no_serializer (model_post_init example_model) model_toml example_world)
         = Inr model_toml
     \<and> (\<exists>content.
          files (snd (Model_write no_serializer (model_post_init example_model) model_toml
                        example_world)) model_toml = Some (TomlFile content)
          \<and> (''input_dir'', TStr ''.'') \<in> set content
          \<and> (''results_dir'', TStr ''results'') \<in> set content
          \<and> (''ribasim_version'', TStr ''0.2.0'') \<in> set content
          \<and> ''logging'' \<notin> fst ` set content
          \<and> ''basin'' \<notin> fst ` set content)"
proof -
  have p1: "path_ok (input_dir example_model)" and p2: "path_ok (results_dir example_model)"
    by (simp_all add: path_ok_def example_model_def default_model_def)
  have h: "Model_write no_serializer (model_post_init example_model) model_toml example_world =
     (Inr model_toml, snd (Model_write no_serializer example_model model_toml example_world))"
    using example_write by (simp add: example_post_init)
  have i: "serialize_path (input_dir example_model) = ''.''"
    and r: "serialize_path (results_dir example_model) = ''results''"
    by (simp_all add: serialize_path_def example_model_def default_model_def)
  have l: "F_logging \<notin> model_fields_set (model_post_init example_model)"
    by (simp add: example_post_init) (simp add: example_model_def)
  have b: "dump_value no_serializer (getattr example_model F_basin) = None"
    by (simp add: no_serializer_def)
  from write_toml_sparse[OF h p1 p2] obtain content where
    c1: "files (snd (Model_write no_serializer example_model model_toml example_world)) model_toml
       = Some (TomlFile content)" and
    c2: "(''input_dir'', TStr (serialize_path (input_dir example_model))) \<in> set content" and
    c3: "(''results_dir'', TStr (serialize_path (results_dir example_model))) \<in> set content" and
    c4: "(''ribasim_version'', TStr ribasim_version) \<in> set content" and
    c5: "\<forall>f. f \<notin> model_fields_set (model_post_init example_model)
         \<longrightarrow> field_alias f \<notin> fst ` set content" and
    c6: "\<forall>f. dump_value no_serializer (getattr example_model f) = None
         \<longrightarrow> field_alias f \<notin> fst ` set content"
    by blast
  have c7: "''logging'' \<notin> fst ` set content"
    using c5 l by (metis field_alias.simps(6))
  have c8: "''basin'' \<notin> fst ` set content"
    using c6 b by (metis field_alias.simps(9))
  have "files (snd (Model_write no_serializer example_model model_toml example_world))
        model_toml = Some (TomlFile content)
      \<and> (''input_dir'', TStr ''.'') \<in> set content
      \<and> (''results_dir'', TStr ''results'') \<in> set content
      \<and> (''ribasim_version'', TStr ''0.2.0'') \<in> set content
      \<and> ''logging'' \<notin> fst ` set content
      \<and> ''basin'' \<notin> fst ` set content"
    using c1 c2 c3 c4 c7 c8 unfolding i r ribasim_version_def by blast
  then show ?thesis
    using p1 p2 example_write_returns unfolding example_post_init by blast
qed

section \<open>Properties of reading back\<close>

lemma split_sep_nonempty: "split_sep s \<noteq> []"
  by (induction s) (auto split: list.splits)







































end
